theory Spec2Isabelle
  imports Complex_Main "HOL-Library.Product_Lexorder"
begin

text \<open>
  The emissions service: the loader that reads rows, normalizes them and writes them in
  batches (\<open>scripts/seed-emissions.js\<close>), and the route \<open>GET /emissions\<close> that pages
  through the readings of one equipment by cursor. The functions of both are embedded as
  HOL functions; what the JavaScript runtime and the MongoDB driver do is given by
  definition where the language fixes it (\<open>Number\<close>, \<open>parseInt\<close>, the filter, the
  sort, the limit and the projection of \<open>find\<close>) and taken as a parameter where it does
  not (\<open>Date.parse\<close>, \<open>JSON.parse\<close>, the strings of dates and ObjectIds, the outcome
  of \<open>insertMany\<close>).
\<close>

section \<open>JavaScript values used by the loader\<close>

text \<open>
  Strings are lists of 8-bit characters: the code units of the row's text, for
  text within Latin-1. A column that the CSV parser did not produce
  (\<open>relax_column_count\<close>) reads as \<open>undefined\<close>, modelled as \<open>None\<close>.
\<close>

type_synonym jsval = "string option"

text \<open>
  A JavaScript Number: \<open>Finite\<close> carries the exact mathematical value of the literal
  that was read. Rounding a finite value to the nearest double and the sign of zero are
  not modelled; overflow to an infinity is (see \<open>roundMV\<close>).
\<close>

datatype jsnum = NaN | Infinity | NegInfinity | Finite rat

datatype json = JNull | JBool bool | JNum jsnum | JStr string
  | JArr "json list" | JObj "(string \<times> json) list"

text \<open>
  A value of a stored document. \<open>undefined\<close> is written as null by the driver.
\<close>

datatype bson = BString string | BNull | BDate int | BDouble jsnum | BObjectId nat | BJson json

datatype error = Error string

definition ToString :: "jsval \<Rightarrow> string" where
  "ToString v = (case v of None \<Rightarrow> ''undefined'' | Some s \<Rightarrow> s)"

subsection \<open>Number(v): the StringToNumber conversion\<close>

definition isWhiteSpace :: "char \<Rightarrow> bool" where
  \<comment> \<open>StrWhiteSpaceChar within Latin-1: TAB, LF, VT, FF, CR, SP, NBSP\<close>
  "isWhiteSpace c = ((of_char c :: nat) \<in> {9, 10, 11, 12, 13, 32, 160})"

definition trimStart :: "string \<Rightarrow> string" where
  "trimStart s = dropWhile isWhiteSpace s"

definition trim :: "string \<Rightarrow> string" where
  "trim s = rev (dropWhile isWhiteSpace (rev (dropWhile isWhiteSpace s)))"

definition isDigit :: "char \<Rightarrow> bool" where
  "isDigit c = (48 \<le> (of_char c :: nat) \<and> (of_char c :: nat) \<le> 57)"

definition digitValue :: "char \<Rightarrow> nat" where
  \<comment> \<open>value of a digit of any radix up to 16; 16 for a character that is no digit\<close>
  "digitValue c = (let n = (of_char c :: nat) in
     if 48 \<le> n \<and> n \<le> 57 then n - 48
     else if 97 \<le> n \<and> n \<le> 102 then n - 87
     else if 65 \<le> n \<and> n \<le> 70 then n - 55
     else 16)"

definition isRadixDigit :: "nat \<Rightarrow> char \<Rightarrow> bool" where
  "isRadixDigit r c = (digitValue c < r)"

definition digitsValue :: "nat \<Rightarrow> string \<Rightarrow> nat" where
  "digitsValue r ds = foldl (\<lambda>a c. r * a + digitValue c) 0 ds"

definition roundMV :: "rat \<Rightarrow> jsnum" where
  \<comment> \<open>a value at or beyond the midpoint between the largest double and \<open>2^1024\<close>
      rounds to an infinity\<close>
  "roundMV x = (if 2 ^ 1024 - 2 ^ 970 \<le> x then Infinity
                else if x \<le> - (2 ^ 1024 - 2 ^ 970) then NegInfinity
                else Finite x)"

definition scale10 :: "rat \<Rightarrow> int \<Rightarrow> rat" where
  "scale10 x e = (if 0 \<le> e then x * 10 ^ nat e else x / 10 ^ nat (- e))"

definition parseExponentPart :: "string \<Rightarrow> int option" where
  \<comment> \<open>the rest of a decimal literal after its digits: nothing, or \<open>e\<close>/\<open>E\<close>, an
      optional sign and at least one digit\<close>
  "parseExponentPart s = (case s of
       [] \<Rightarrow> Some 0
     | c # r \<Rightarrow>
         if c = CHR ''e'' \<or> c = CHR ''E'' then
           (let neg = (r \<noteq> [] \<and> hd r = CHR ''-'');
                ds = (if r \<noteq> [] \<and> (hd r = CHR ''+'' \<or> hd r = CHR ''-'') then tl r else r)
            in if ds \<noteq> [] \<and> list_all isDigit ds
               then Some (if neg then - int (digitsValue 10 ds) else int (digitsValue 10 ds))
               else None)
         else None)"

definition parseUnsignedDecimal :: "string \<Rightarrow> jsnum option" where
  \<comment> \<open>StrUnsignedDecimalLiteral; \<open>None\<close> when the text is not one\<close>
  "parseUnsignedDecimal s =
     (if s = ''Infinity'' then Some Infinity
      else
        (let ip = takeWhile isDigit s; r1 = dropWhile isDigit s in
         case r1 of
           c # r2 \<Rightarrow>
             if c = CHR ''.'' then
               (let fp = takeWhile isDigit r2; r3 = dropWhile isDigit r2 in
                if ip = [] \<and> fp = [] then None
                else (case parseExponentPart r3 of
                        None \<Rightarrow> None
                      | Some e \<Rightarrow> Some (roundMV (scale10
                          (of_nat (digitsValue 10 ip)
                             + of_nat (digitsValue 10 fp) / 10 ^ length fp) e))))
             else if ip = [] then None
             else (case parseExponentPart r1 of
                     None \<Rightarrow> None
                   | Some e \<Rightarrow> Some (roundMV (scale10 (of_nat (digitsValue 10 ip)) e)))
         | [] \<Rightarrow> if ip = [] then None else Some (roundMV (of_nat (digitsValue 10 ip)))))"

definition negate :: "jsnum \<Rightarrow> jsnum" where
  "negate n = (case n of NaN \<Rightarrow> NaN | Infinity \<Rightarrow> NegInfinity
                 | NegInfinity \<Rightarrow> Infinity | Finite x \<Rightarrow> Finite (- x))"

definition parseNonDecimal :: "string \<Rightarrow> jsnum option" where
  \<comment> \<open>NonDecimalIntegerLiteral: \<open>0x\<close>, \<open>0o\<close>, \<open>0b\<close> (either case) and at least one digit\<close>
  "parseNonDecimal s = (case s of
       z # p # ds \<Rightarrow>
         (let r = (if p = CHR ''x'' \<or> p = CHR ''X'' then 16
                   else if p = CHR ''o'' \<or> p = CHR ''O'' then 8
                   else if p = CHR ''b'' \<or> p = CHR ''B'' then 2 else (0::nat))
          in if z = CHR ''0'' \<and> r \<noteq> 0 \<and> ds \<noteq> [] \<and> list_all (isRadixDigit r) ds
             then Some (roundMV (of_nat (digitsValue r ds))) else None)
     | _ \<Rightarrow> None)"

definition StringToNumber :: "string \<Rightarrow> jsnum" where
  "StringToNumber str =
     (let text = trim str in
      if text = [] then Finite 0
      else (case parseNonDecimal text of
              Some n \<Rightarrow> n
            | None \<Rightarrow>
               (case (if hd text = CHR ''-'' then map_option negate (parseUnsignedDecimal (tl text))
                      else if hd text = CHR ''+'' then parseUnsignedDecimal (tl text)
                      else parseUnsignedDecimal text) of
                  Some n \<Rightarrow> n
                | None \<Rightarrow> NaN)))"

definition Number :: "jsval \<Rightarrow> jsnum" where
  "Number v = (case v of None \<Rightarrow> NaN | Some s \<Rightarrow> StringToNumber s)"

subsection \<open>Number.parseInt(v, 10)\<close>

definition parseInt10 :: "jsval \<Rightarrow> jsnum" where
  \<comment> \<open>radix 10: leading white space is dropped, then an optional sign, then the
      longest run of decimal digits; whatever follows is ignored\<close>
  "parseInt10 v =
     (let s = trimStart (ToString v);
          neg = (s \<noteq> [] \<and> hd s = CHR ''-'');
          s' = (if s \<noteq> [] \<and> (hd s = CHR ''+'' \<or> hd s = CHR ''-'') then tl s else s);
          z = takeWhile isDigit s'
      in if z = [] then NaN
         else roundMV (if neg then - of_nat (digitsValue 10 z) else of_nat (digitsValue 10 z)))"

section \<open>The record normalizer (scripts/seed-emissions.js)\<close>

definition toNumber :: "jsval \<Rightarrow> error + jsnum" where
  "toNumber v = (let n = Number v in
     if n = NaN then Inl (Error (''Invalid number: '' @ ToString v)) else Inr n)"

definition toInt :: "jsval \<Rightarrow> error + jsnum" where
  "toInt v = (let n = parseInt10 v in
     if n = NaN then Inl (Error (''Invalid int: '' @ ToString v)) else Inr n)"

text \<open>
  \<open>new Date(v)\<close> and \<open>JSON.parse\<close> are the runtime's: \<open>Date.parse\<close> is
  implementation-defined outside the ISO format, so both are parameters. A time value is
  the number of milliseconds since the epoch; \<open>None\<close> is the invalid date.
\<close>

record runtime =
  dateParse :: "string \<Rightarrow> int option"
  jsonParse :: "string \<Rightarrow> json option"
  toISOString :: "int \<Rightarrow> string"
  newObjectId :: "string \<Rightarrow> nat option"
  oidToString :: "nat \<Rightarrow> string"
  valueToString :: "bson \<Rightarrow> string"

definition newDate :: "runtime \<Rightarrow> jsval \<Rightarrow> int option" where
  "newDate rt v = (case v of None \<Rightarrow> None | Some s \<Rightarrow> dateParse rt s)"

definition toDate :: "runtime \<Rightarrow> jsval \<Rightarrow> error + int" where
  "toDate rt v = (case newDate rt v of
       None \<Rightarrow> Inl (Error (''Invalid timestamp: '' @ ToString v))
     | Some d \<Rightarrow> Inr d)"

definition safeJsonParse :: "runtime \<Rightarrow> jsval \<Rightarrow> json" where
  "safeJsonParse rt v = (case jsonParse rt (ToString v) of Some j \<Rightarrow> j | None \<Rightarrow> JArr [])"

record raw_row =
  r_id :: jsval
  r_timestamp :: jsval
  r_siteId :: jsval
  r_siteName :: jsval
  r_equipmentId :: jsval
  r_type :: jsval
  r_mass :: jsval
  r_unit :: jsval
  r_scanDuration :: jsval
  r_confidence :: jsval
  r_numDetections :: jsval
  r_detections :: jsval

record emission =
  id :: jsval
  timestamp :: int
  siteId :: jsval
  siteName :: jsval
  equipmentId :: jsval
  type :: jsval
  mass :: jsnum
  unit :: jsval
  scanDuration :: jsnum
  confidence :: jsnum
  numDetections :: jsnum
  detections :: json

definition mapRow :: "runtime \<Rightarrow> raw_row \<Rightarrow> error + emission" where
  \<comment> \<open>the properties of the object literal are evaluated in order; the first
      conversion that throws ends the call\<close>
  "mapRow rt row =
     (case toDate rt (r_timestamp row) of Inl e \<Rightarrow> Inl e | Inr ts \<Rightarrow>
     (case toNumber (r_mass row) of Inl e \<Rightarrow> Inl e | Inr m \<Rightarrow>
     (case toInt (r_scanDuration row) of Inl e \<Rightarrow> Inl e | Inr sd \<Rightarrow>
     (case toNumber (r_confidence row) of Inl e \<Rightarrow> Inl e | Inr c \<Rightarrow>
     (case toInt (r_numDetections row) of Inl e \<Rightarrow> Inl e | Inr nd \<Rightarrow>
        Inr \<lparr> id = r_id row, timestamp = ts, siteId = r_siteId row,
              siteName = r_siteName row, equipmentId = r_equipmentId row,
              type = r_type row, mass = m, unit = r_unit row, scanDuration = sd,
              confidence = c, numDetections = nd,
              detections = safeJsonParse rt (r_detections row) \<rparr>)))))"


section \<open>The batch flusher and the ingestion run (scripts/seed-emissions.js, main)\<close>

text \<open>
  What \<open>col.insertMany(docs, {ordered: false})\<close> can do: resolve with a result whose
  \<open>insertedCount\<close> is read, or reject with an error object. Of the error object the
  code reads \<open>writeErrors\<close> (the codes of its entries; \<open>None\<close> when the error has no
  such property) and \<open>result.nInserted\<close> / \<open>result.insertedCount\<close>.
\<close>

record thrown =
  message :: string
  writeErrors :: "nat list option"
  nInserted :: "nat option"
  insertedCount :: "nat option"

datatype insert_outcome = Resolved nat | Rejected thrown

text \<open>The collection is a state \<open>'s\<close> with its \<open>insertMany\<close>.\<close>

type_synonym 's insertMany = "'s \<Rightarrow> emission list \<Rightarrow> insert_outcome \<times> 's"

record 's loader =
  batch :: "emission list"
  inserted :: nat
  skipped :: nat
  col :: 's

definition successful :: "thrown \<Rightarrow> nat" where
  \<comment> \<open>\<open>(err.result && err.result.nInserted) || (err.result && err.result.insertedCount) || 0\<close>:
      a count of 0 is falsy\<close>
  "successful err = (case nInserted err of
       Some n \<Rightarrow> if n \<noteq> 0 then n else (case insertedCount err of Some m \<Rightarrow> m | None \<Rightarrow> 0)
     | None \<Rightarrow> (case insertedCount err of Some m \<Rightarrow> m | None \<Rightarrow> 0))"

definition dupes :: "nat list \<Rightarrow> nat" where
  "dupes wes = length (filter (\<lambda>c. c = 11000) wes)"

definition flushBatch :: "'s insertMany \<Rightarrow> 's loader \<Rightarrow> thrown + 's loader" where
  "flushBatch ins st =
     (if batch st = [] then Inr st
      else
        (let docs = batch st; st1 = st\<lparr>batch := []\<rparr> in
         case ins (col st1) docs of
           (Resolved n, c') \<Rightarrow> Inr (st1\<lparr>inserted := inserted st1 + n, col := c'\<rparr>)
         | (Rejected err, c') \<Rightarrow>
             (case writeErrors err of
                Some wes \<Rightarrow>
                  Inr (st1\<lparr>skipped := skipped st1 + dupes wes,
                           inserted := inserted st1 + successful err, col := c'\<rparr>)
              | None \<Rightarrow> Inl err)))"

definition lengthGe :: "nat \<Rightarrow> jsnum \<Rightarrow> bool" where
  \<comment> \<open>\<open>batch.length >= BATCH_SIZE\<close>; a comparison with NaN is false\<close>
  "lengthGe n b = (case b of NaN \<Rightarrow> False | Infinity \<Rightarrow> False | NegInfinity \<Rightarrow> True
                     | Finite x \<Rightarrow> x \<le> of_nat n)"

text \<open>
  \<open>flushBatch\<close> is an async function with one \<open>await\<close>, on \<open>insertMany\<close>. Up to there
  it runs in the turn of its caller: \<open>flushStart\<close> gives the documents handed to
  \<open>insertMany\<close> and the variables as the caller finds them on return, or \<open>None\<close> when the
  batch was empty and nothing was awaited. \<open>flushSettle\<close> is the rest, run in a later turn
  with the outcome of the write; \<open>Inl\<close> is the rejection of the promise of \<open>flushBatch\<close>.
  A write takes effect on the collection when it settles.
\<close>

definition flushStart :: "'s loader \<Rightarrow> (emission list \<times> 's loader) option" where
  "flushStart st = (if batch st = [] then None else Some (batch st, st\<lparr>batch := []\<rparr>))"

definition flushSettle :: "insert_outcome \<Rightarrow> 's loader \<Rightarrow> thrown + 's loader" where
  "flushSettle out st =
     (case out of
        Resolved n \<Rightarrow> Inr (st\<lparr>inserted := inserted st + n\<rparr>)
      | Rejected err \<Rightarrow>
          (case writeErrors err of
             Some wes \<Rightarrow> Inr (st\<lparr>skipped := skipped st + dupes wes,
                                 inserted := inserted st + successful err\<rparr>)
           | None \<Rightarrow> Inl err))"

text \<open>
  The parser and what hangs on it: the variables of \<open>main\<close>, whether the parser is paused,
  the documents of the \<open>insertMany\<close> calls that the \<open>data\<close> handler has started and that
  have not settled (the oldest first), and the error the parser was destroyed with.
\<close>

record 's parser =
  vars :: "'s loader"
  paused :: bool
  pending :: "emission list list"
  destroyed :: "thrown option"

text \<open>
  The \<open>data\<close> handler, from the row to its return. When the batch is full it pauses the
  parser and calls \<open>flushBatch\<close>, whose promise it gives \<open>then\<close> and \<open>catch\<close> and does not
  await: it returns with the batch emptied and the write in flight. (The batch it has just
  pushed to is not empty, so that flush does start.)
\<close>

definition onData :: "runtime \<Rightarrow> jsnum \<Rightarrow> 's parser \<Rightarrow> raw_row \<Rightarrow> 's parser" where
  "onData rt BATCH_SIZE p row =
     (case mapRow rt row of
        Inl e \<Rightarrow> p\<lparr>vars := (vars p)\<lparr>skipped := skipped (vars p) + 1\<rparr>\<rparr>
      | Inr doc \<Rightarrow>
          (let st1 = (vars p)\<lparr>batch := batch (vars p) @ [doc]\<rparr> in
           if lengthGe (length (batch st1)) BATCH_SIZE then
             (case flushStart st1 of
                Some (docs, st2) \<Rightarrow> p\<lparr>vars := st2, paused := True, pending := pending p @ [docs]\<rparr>
              | None \<Rightarrow> p\<lparr>vars := st1\<rparr>)
           else p\<lparr>vars := st1\<rparr>))"


text \<open>
  \<open>main\<close> from the turn in which \<open>await pipeline(...)\<close> has resolved, up to the first
  \<open>await\<close> of the last \<open>flushBatch\<close>. The promise of \<open>pipeline\<close> waits for the parser to
  have taken all its input, not for the writes started by the handler nor for the rows
  still in the paused parser. With an empty batch \<open>flushBatch\<close> returns without awaiting
  anything and \<open>DONE\<close> is printed with the counters as they stand (\<open>Inl\<close> of \<open>inserted\<close>
  and \<open>skipped\<close>); otherwise \<open>insertMany\<close> is called with the batch (\<open>Inr\<close>).
\<close>

definition mainAfterPipeline :: "'s loader \<Rightarrow> (nat \<times> nat) + (emission list \<times> 's loader)" where
  "mainAfterPipeline st =
     (case flushStart st of
        None \<Rightarrow> Inl (inserted st, skipped st)
      | Some (docs, st1) \<Rightarrow> Inr (docs, st1))"


section \<open>The collection as the query route uses it\<close>

text \<open>
  A stored document is what the loader wrote plus the identity the store assigned
  (\<open>_id\<close>, here \<open>oid\<close>: an ObjectId read as the number its twelve bytes spell, so that
  the order of the store is the order of the numbers).
\<close>

record stored = emission +
  oid :: nat

type_synonym document = "(string \<times> bson) list"

definition bsonOf :: "jsval \<Rightarrow> bson" where
  "bsonOf v = (case v of None \<Rightarrow> BNull | Some s \<Rightarrow> BString s)"

definition docOf :: "stored \<Rightarrow> document" where
  "docOf d =
     [(''_id'', BObjectId (oid d)), (''id'', bsonOf (id d)), (''timestamp'', BDate (timestamp d)),
      (''siteId'', bsonOf (siteId d)), (''siteName'', bsonOf (siteName d)),
      (''equipmentId'', bsonOf (equipmentId d)), (''type'', bsonOf (type d)),
      (''mass'', BDouble (mass d)), (''unit'', bsonOf (unit d)),
      (''scanDuration'', BDouble (scanDuration d)), (''confidence'', BDouble (confidence d)),
      (''numDetections'', BDouble (numDetections d)), (''detections'', BJson (detections d))]"

subsection \<open>Filters\<close>

text \<open>
  A filter document is a list of clauses, all of which must hold. A clause constrains a
  field, by a value to equal or by an object of operators, or is \<open>$or\<close> over filter
  documents.
\<close>

datatype cond = Eq bson | Ops "(string \<times> bson) list"

datatype clause = Field string cond | Or "clause list list"

type_synonym filter = "clause list"

definition numLt :: "jsnum \<Rightarrow> jsnum \<Rightarrow> bool" where
  "numLt a b = (case (a, b) of
       (Finite x, Finite y) \<Rightarrow> x < y
     | (Finite x, Infinity) \<Rightarrow> True
     | (NegInfinity, Finite y) \<Rightarrow> True
     | (NegInfinity, Infinity) \<Rightarrow> True
     | _ \<Rightarrow> False)"

definition bsonLt :: "bson \<Rightarrow> bson \<Rightarrow> bool" where
  \<comment> \<open>an operator compares values of one type; of strings and arrays the route
      compares none\<close>
  "bsonLt a b = (case (a, b) of
       (BDate x, BDate y) \<Rightarrow> x < y
     | (BObjectId x, BObjectId y) \<Rightarrow> x < y
     | (BDouble x, BDouble y) \<Rightarrow> numLt x y
     | _ \<Rightarrow> False)"

definition evalOp :: "string \<Rightarrow> bson \<Rightarrow> bson \<Rightarrow> bool" where
  "evalOp opr x v =
     (if opr = ''$lt'' then bsonLt x v
      else if opr = ''$lte'' then bsonLt x v \<or> x = v
      else if opr = ''$gt'' then bsonLt v x
      else if opr = ''$gte'' then bsonLt v x \<or> x = v
      else False)"

fun matchesCond :: "cond \<Rightarrow> bson option \<Rightarrow> bool" where
  "matchesCond (Eq v) x = (x = Some v)"
| "matchesCond (Ops ops) x =
     (case x of None \<Rightarrow> False | Some xv \<Rightarrow> list_all (\<lambda>(opr, v). evalOp opr xv v) ops)"

fun matchesClause :: "document \<Rightarrow> clause \<Rightarrow> bool" where
  "matchesClause d (Field k c) = matchesCond c (map_of d k)"
| "matchesClause d (Or fs) = list_ex (\<lambda>f. list_all (matchesClause d) f) fs"

definition matches :: "filter \<Rightarrow> document \<Rightarrow> bool" where
  "matches f d = list_all (matchesClause d) f"

subsection \<open>find(filter, {projection}).sort(spec).limit(n).toArray()\<close>

record find_call =
  c_filter :: filter
  c_projection :: "string list"
  c_sort :: "(string \<times> int) list"
  c_limit :: int

definition project :: "string list \<Rightarrow> document \<Rightarrow> document" where
  \<comment> \<open>an inclusion projection keeps the listed fields\<close>
  "project ks d = filter (\<lambda>(k, v). k \<in> set ks) d"

definition sortKey :: "stored \<Rightarrow> int \<times> nat" where
  "sortKey d = (timestamp d, oid d)"

definition sortDocs :: "(string \<times> int) list \<Rightarrow> stored list \<Rightarrow> stored list" where
  \<comment> \<open>the one sort the route asks for: timestamp descending, then \<open>_id\<close> descending;
      any other specification is left in the order of the collection\<close>
  "sortDocs spec ds =
     (if spec = [(''timestamp'', -1), (''_id'', -1)] then rev (sort_key sortKey ds) else ds)"

definition limitDocs :: "int \<Rightarrow> 'a list \<Rightarrow> 'a list" where
  \<comment> \<open>a limit of 0 is no limit; a negative limit is its absolute value\<close>
  "limitDocs n ds = (if n = 0 then ds else take (nat \<bar>n\<bar>) ds)"

definition mongoFind :: "stored list \<Rightarrow> find_call \<Rightarrow> document list option" where
  "mongoFind store c =
     Some (map (\<lambda>d. project (c_projection c) (docOf d))
            (limitDocs (c_limit c) (sortDocs (c_sort c)
               (filter (\<lambda>d. matches (c_filter c) (docOf d)) store))))"

section \<open>GET /emissions (routes/emissions.routes.js)\<close>

text \<open>
  \<open>req.query\<close> after the schema has been applied: defaults filled in, numbers and
  booleans coerced. An optional string that was not sent is \<open>None\<close>.
\<close>

record request =
  q_siteId :: string
  q_equipmentId :: string
  q_from :: jsval
  q_to :: jsval
  q_confidenceMin :: rat
  q_limit :: int
  q_includeDetections :: bool
  q_cursorTs :: jsval
  q_cursorId :: jsval

record page =
  count :: nat
  p_siteId :: string
  p_equipmentId :: string
  nextCursor :: "(string \<times> string) option"
  items :: "document list"

datatype body = Message string | Page page | ValidationError

datatype reply = Reply nat body

definition truthy :: "jsval \<Rightarrow> bool" where
  "truthy v = (case v of None \<Rightarrow> False | Some s \<Rightarrow> s \<noteq> [])"

definition schemaValid :: "request \<Rightarrow> bool" where
  "schemaValid req =
     (q_siteId req \<noteq> [] \<and> q_equipmentId req \<noteq> []
      \<and> 0 \<le> q_confidenceMin req \<and> q_confidenceMin req \<le> 1
      \<and> 1 \<le> q_limit req \<and> q_limit req \<le> 1000)"

definition timeFilter :: "runtime \<Rightarrow> request \<Rightarrow> int option \<times> int option" where
  \<comment> \<open>\<open>$gte\<close> and \<open>$lte\<close> of the time filter, once \<open>from\<close> and \<open>to\<close> have parsed\<close>
  "timeFilter rt req =
     (if truthy (q_from req) then newDate rt (q_from req) else None,
      if truthy (q_to req) then newDate rt (q_to req) else None)"

definition baseFilter :: "runtime \<Rightarrow> request \<Rightarrow> filter" where
  "baseFilter rt req =
     [Field ''siteId'' (Eq (BString (q_siteId req))),
      Field ''equipmentId'' (Eq (BString (q_equipmentId req))),
      Field ''confidence'' (Ops [(''$gte'', BDouble (Finite (q_confidenceMin req)))])]
     @ (case timeFilter rt req of
          (None, None) \<Rightarrow> []
        | (gte, lte) \<Rightarrow>
            [Field ''timestamp'' (Ops
               ((case gte of Some d \<Rightarrow> [(''$gte'', BDate d)] | None \<Rightarrow> [])
                @ (case lte of Some d \<Rightarrow> [(''$lte'', BDate d)] | None \<Rightarrow> [])))])"

definition cursorFilter :: "int \<Rightarrow> nat \<Rightarrow> clause" where
  "cursorFilter ts i =
     Or [[Field ''timestamp'' (Ops [(''$lt'', BDate ts)])],
         [Field ''timestamp'' (Eq (BDate ts)), Field ''_id'' (Ops [(''$lt'', BObjectId i)])]]"

definition projection :: "bool \<Rightarrow> string list" where
  "projection includeDetections =
     (if includeDetections
      then [''_id'', ''siteId'', ''equipmentId'', ''timestamp'', ''confidence'', ''detections'']
      else [''_id'', ''siteId'', ''equipmentId'', ''timestamp'', ''confidence''])"

definition slice0 :: "int \<Rightarrow> 'a list \<Rightarrow> 'a list" where
  \<comment> \<open>\<open>docs.slice(0, n)\<close>; a negative end counts from the end of the array\<close>
  "slice0 n ds = (if 0 \<le> n then take (nat n) ds else take (length ds - nat (- n)) ds)"

definition String :: "runtime \<Rightarrow> bson option \<Rightarrow> string" where
  "String rt v = (case v of
       None \<Rightarrow> ''undefined''
     | Some (BObjectId n) \<Rightarrow> oidToString rt n
     | Some (BString s) \<Rightarrow> s
     | Some BNull \<Rightarrow> ''null''
     | Some b \<Rightarrow> valueToString rt b)"

definition respond :: "runtime \<Rightarrow> request \<Rightarrow> document list \<Rightarrow> reply" where
  \<comment> \<open>from \<open>hasMore\<close> to \<open>reply.send\<close>; reading \<open>toISOString\<close> of a timestamp that is
      no date throws, which the handler catches\<close>
  "respond rt req docs =
     (let hasMore = (q_limit req < int (length docs));
          its = (if hasMore then slice0 (q_limit req) docs else docs)
      in if hasMore \<and> its \<noteq> [] then
           (case map_of (last its) ''timestamp'' of
              Some (BDate t) \<Rightarrow>
                Reply 200 (Page \<lparr> count = length its, p_siteId = q_siteId req,
                  p_equipmentId = q_equipmentId req,
                  nextCursor = Some (toISOString rt t, String rt (map_of (last its) ''_id'')),
                  items = its \<rparr>)
            | _ \<Rightarrow> Reply 500 (Message ''Internal server error''))
         else Reply 200 (Page \<lparr> count = length its, p_siteId = q_siteId req,
                  p_equipmentId = q_equipmentId req, nextCursor = None, items = its \<rparr>))"

text \<open>
  The checks of the handler in their order, each an early return with status 400:
  \<open>validate\<close> gives the message of the first check that fails, \<open>None\<close> when all pass.
\<close>

definition validate :: "runtime \<Rightarrow> request \<Rightarrow> string option" where
  "validate rt req =
     (if truthy (q_from req) \<and> newDate rt (q_from req) = None
        then Some ''Invalid 'from' timestamp''
      else if truthy (q_to req) \<and> newDate rt (q_to req) = None
        then Some ''Invalid 'to' timestamp''
      else if (case timeFilter rt req of (Some a, Some b) \<Rightarrow> b < a | _ \<Rightarrow> False)
        then Some (CHR 0x27 # ''from' must be <= 'to'' @ [CHR 0x27])
      else if truthy (q_cursorTs req) \<or> truthy (q_cursorId req) then
        (if \<not> truthy (q_cursorTs req) \<or> \<not> truthy (q_cursorId req)
           then Some ''Both cursorTs and cursorId are required together''
         else if newDate rt (q_cursorTs req) = None
           then Some ''Invalid 'cursorTs' timestamp''
         else if newObjectId rt (ToString (q_cursorId req)) = None
           then Some ''Invalid 'cursorId' ObjectId''
         else None)
      else None)"

definition cursorOf :: "runtime \<Rightarrow> request \<Rightarrow> (int \<times> nat) option" where
  \<comment> \<open>\<open>ts\<close> and \<open>oid\<close> of a request that passed the checks\<close>
  "cursorOf rt req =
     (if truthy (q_cursorTs req) \<or> truthy (q_cursorId req) then
        (case (newDate rt (q_cursorTs req), newObjectId rt (ToString (q_cursorId req))) of
           (Some ts, Some i) \<Rightarrow> Some (ts, i)
         | _ \<Rightarrow> None)
      else None)"

definition planQuery :: "runtime \<Rightarrow> request \<Rightarrow> find_call" where
  "planQuery rt req =
     \<lparr> c_filter = baseFilter rt req
         @ (case cursorOf rt req of Some (ts, i) \<Rightarrow> [cursorFilter ts i] | None \<Rightarrow> []),
       c_projection = projection (q_includeDetections req),
       c_sort = [(''timestamp'', -1), (''_id'', -1)],
       c_limit = q_limit req + 1 \<rparr>"

text \<open>
  The handler, with the collection as the function that answers a call with the
  documents, or with \<open>None\<close> when it rejects. The result is the reply and the calls made
  to the collection.
\<close>

definition handler ::
  "runtime \<Rightarrow> (find_call \<Rightarrow> document list option) \<Rightarrow> request \<Rightarrow> reply \<times> find_call list" where
  "handler rt emissionsCol req =
     (case validate rt req of
        Some msg \<Rightarrow> (Reply 400 (Message msg), [])
      | None \<Rightarrow>
          (let call = planQuery rt req in
           case emissionsCol call of
             None \<Rightarrow> (Reply 500 (Message ''Internal server error''), [call])
           | Some docs \<Rightarrow> (respond rt req docs, [call])))"

definition getEmissions ::
  "runtime \<Rightarrow> (find_call \<Rightarrow> document list option) \<Rightarrow> request \<Rightarrow> reply \<times> find_call list" where
  \<comment> \<open>the framework answers a query that fails the schema itself\<close>
  "getEmissions rt emissionsCol req =
     (if schemaValid req then handler rt emissionsCol req else (Reply 400 ValidationError, []))"

subsection \<open>A client that follows the cursor\<close>

text \<open>
  The client of the paging protocol: request, keep the items, and request again with the
  \<open>nextCursor\<close> of the reply until it is null. \<open>None\<close>: the fuel ran out before a null
  cursor; \<open>Some (Inl r)\<close>: a reply \<open>r\<close> that is no page ended the walk.
\<close>

fun paginate ::
  "nat \<Rightarrow> runtime \<Rightarrow> (find_call \<Rightarrow> document list option) \<Rightarrow> request
     \<Rightarrow> (reply + document list list) option" where
  "paginate 0 rt emissionsCol req = None"
| "paginate (Suc n) rt emissionsCol req =
     (case fst (getEmissions rt emissionsCol req) of
        Reply code (Page p) \<Rightarrow>
          (case nextCursor p of
             None \<Rightarrow> Some (Inr [items p])
           | Some (cts, cid) \<Rightarrow>
               (case paginate n rt emissionsCol (req\<lparr>q_cursorTs := Some cts, q_cursorId := Some cid\<rparr>) of
                  None \<Rightarrow> None
                | Some (Inl r) \<Rightarrow> Some (Inl r)
                | Some (Inr ps) \<Rightarrow> Some (Inr (items p # ps))))
      | r \<Rightarrow> Some (Inl r))"


section \<open>Concrete runtimes, rows and collections\<close>

text \<open>
  A runtime that knows the instants and the payloads of the repository's tests, reads an
  ObjectId as 24 hexadecimal digits and writes the first four.
\<close>

definition testDateParse :: "string \<Rightarrow> int option" where
  "testDateParse s =
     (if s = ''2026-01-02T00:00:00.000Z'' then Some 1767312000000
      else if s = ''2026-01-01T00:00:00.000Z'' then Some 1767225600000
      else if s = ''2025-12-31T00:00:00.000Z'' then Some 1767139200000
      else None)"

definition testToISOString :: "int \<Rightarrow> string" where
  "testToISOString t =
     (if t = 1767312000000 then ''2026-01-02T00:00:00.000Z''
      else if t = 1767225600000 then ''2026-01-01T00:00:00.000Z''
      else if t = 1767139200000 then ''2025-12-31T00:00:00.000Z''
      else ''1970-01-01T00:00:00.000Z'')"

definition testJsonParse :: "string \<Rightarrow> json option" where
  "testJsonParse s =
     (if s = ''[]'' then Some (JArr [])
      else if s = ''[1,2,3]'' then Some (JArr [JNum (Finite 1), JNum (Finite 2), JNum (Finite 3)])
      else None)"

definition testOidToString :: "nat \<Rightarrow> string" where
  "testOidToString i =
     (if i = 1 then ''000000000000000000000001''
      else if i = 2 then ''000000000000000000000002''
      else if i = 3 then ''000000000000000000000003''
      else if i = 4 then ''000000000000000000000004''
      else ''ffffffffffffffffffffffff'')"

definition testNewObjectId :: "string \<Rightarrow> nat option" where
  "testNewObjectId s =
     (if length s = 24 \<and> list_all (isRadixDigit 16) s then Some (digitsValue 16 s) else None)"

definition testRuntime :: runtime where
  "testRuntime = \<lparr> dateParse = testDateParse, jsonParse = testJsonParse,
     toISOString = testToISOString, newObjectId = testNewObjectId,
     oidToString = testOidToString, valueToString = (\<lambda>b. ''[object Object]'') \<rparr>"

definition testRow :: raw_row where
  \<comment> \<open>the row of the test of \<open>mapRow\<close>, with an empty list of detections\<close>
  "testRow = \<lparr> r_id = Some ''uuid-1'', r_timestamp = Some ''2026-01-01T00:00:00.000Z'',
     r_siteId = Some ''site-1'', r_siteName = Some ''Site Name'',
     r_equipmentId = Some ''equip-1'', r_type = Some ''CH4'', r_mass = Some ''12.34'',
     r_unit = Some ''kg'', r_scanDuration = Some ''10'', r_confidence = Some ''0.9'',
     r_numDetections = Some ''2'', r_detections = Some ''[]'' \<rparr>"

definition testDoc :: emission where
  \<comment> \<open>the document that \<open>mapRow\<close> makes of \<open>testRow\<close>\<close>
  "testDoc = \<lparr> id = Some ''uuid-1'', timestamp = 1767225600000, siteId = Some ''site-1'',
     siteName = Some ''Site Name'', equipmentId = Some ''equip-1'', type = Some ''CH4'',
     mass = Finite (617 / 50), unit = Some ''kg'', scanDuration = Finite 10,
     confidence = Finite (9 / 10), numDetections = Finite 2, detections = JArr [] \<rparr>"



text \<open>
  A collection whose validator refuses every document (write error 121, document failed
  validation), and a collection that cannot be reached.
\<close>

definition validatingInsertMany :: "unit insertMany" where
  "validatingInsertMany c docs =
     (Rejected \<lparr> message = ''Document failed validation'',
        writeErrors = Some (replicate (length docs) 121),
        nInserted = Some 0, insertedCount = Some 0 \<rparr>, c)"

definition unreachableInsertMany :: "unit insertMany" where
  "unreachableInsertMany c docs =
     (Rejected \<lparr> message = ''connect ECONNREFUSED'', writeErrors = None,
        nInserted = None, insertedCount = None \<rparr>, c)"


text \<open>
  A collection of four readings of one equipment, three of them at the same instant, and
  a first request for pages of two.
\<close>

definition storedAt :: "int \<Rightarrow> nat \<Rightarrow> stored" where
  "storedAt t i = \<lparr> id = Some ''uuid-1'', timestamp = t, siteId = Some ''site-1'',
     siteName = Some ''Site Name'', equipmentId = Some ''equip-1'', type = Some ''CH4'',
     mass = Finite (617 / 50), unit = Some ''kg'', scanDuration = Finite 10,
     confidence = Finite (9 / 10), numDetections = Finite 2, detections = JArr [], oid = i \<rparr>"

definition testStore :: "stored list" where
  "testStore = [storedAt 1767225600000 1, storedAt 1767312000000 2,
                storedAt 1767225600000 3, storedAt 1767225600000 4]"

definition testRequest :: request where
  "testRequest = \<lparr> q_siteId = ''site-1'', q_equipmentId = ''equip-1'', q_from = None,
     q_to = None, q_confidenceMin = 3 / 4, q_limit = 2, q_includeDetections = False,
     q_cursorTs = None, q_cursorId = None \<rparr>"

section \<open>Properties of the record normalizer\<close>

lemmas number_defs = Number_def StringToNumber_def trim_def isWhiteSpace_def parseNonDecimal_def
  parseUnsignedDecimal_def isDigit_def parseExponentPart_def digitsValue_def digitValue_def
  roundMV_def scale10_def negate_def isRadixDigit_def

lemmas parseInt_defs = parseInt10_def ToString_def trimStart_def isWhiteSpace_def isDigit_def
  digitsValue_def digitValue_def roundMV_def

lemmas mapRow_defs = mapRow_def toDate_def newDate_def toNumber_def toInt_def safeJsonParse_def
  ToString_def testRow_def testRuntime_def testDateParse_def testJsonParse_def

lemma Number_12_34: "Number (Some ''12.34'') = Finite (617 / 50)"
  by (simp add: number_defs)

lemma Number_0_9: "Number (Some ''0.9'') = Finite (9 / 10)"
  by (simp add: number_defs)

lemma Number_Infinity: "Number (Some ''Infinity'') = Infinity"
  by (simp add: number_defs)

lemma Number_abc: "Number (Some ''abc'') = NaN"
  by (simp add: number_defs)

lemma Number_spaces: "Number (Some ''  '') = Finite 0"
  by (simp add: number_defs)

lemma parseInt10_10: "parseInt10 (Some ''10'') = Finite 10"
  by (simp add: parseInt_defs)

lemma parseInt10_2: "parseInt10 (Some ''2'') = Finite 2"
  by (simp add: parseInt_defs)

lemma parseInt10_12_5: "parseInt10 (Some ''12.5'') = Finite 12"
  by (simp add: parseInt_defs)

lemma parseInt10_2abc: "parseInt10 (Some ''2abc'') = Finite 2"
  by (simp add: parseInt_defs)

lemma parseInt10_abc: "parseInt10 (Some ''abc'') = NaN"
  by (simp add: parseInt_defs)

lemmas sample_values = Number_12_34 Number_0_9 Number_Infinity Number_abc Number_spaces
  parseInt10_10 parseInt10_2 parseInt10_12_5 parseInt10_2abc parseInt10_abc



lemma roundMV_not_NaN: "roundMV x \<noteq> NaN"
  by (simp add: roundMV_def)

lemma toNumber_Inl_iff: "(\<exists>e. toNumber v = Inl e) \<longleftrightarrow> Number v = NaN"
  by (auto simp: toNumber_def Let_def)

lemma toNumber_Inr_iff: "toNumber v = Inr n \<longleftrightarrow> n = Number v \<and> n \<noteq> NaN"
  by (auto simp: toNumber_def Let_def)

lemma toInt_Inl_iff: "(\<exists>e. toInt v = Inl e) \<longleftrightarrow> parseInt10 v = NaN"
  by (auto simp: toInt_def Let_def)

lemma toInt_Inr_iff: "toInt v = Inr n \<longleftrightarrow> n = parseInt10 v \<and> n \<noteq> NaN"
  by (auto simp: toInt_def Let_def)

lemma mapRow_Inr_iff:
  "mapRow rt row = Inr r \<longleftrightarrow>
     (\<exists>ts. newDate rt (r_timestamp row) = Some ts \<and> Number (r_mass row) \<noteq> NaN
       \<and> parseInt10 (r_scanDuration row) \<noteq> NaN \<and> Number (r_confidence row) \<noteq> NaN
       \<and> parseInt10 (r_numDetections row) \<noteq> NaN
       \<and> r = \<lparr> id = r_id row, timestamp = ts, siteId = r_siteId row,
              siteName = r_siteName row, equipmentId = r_equipmentId row,
              type = r_type row, mass = Number (r_mass row), unit = r_unit row,
              scanDuration = parseInt10 (r_scanDuration row),
              confidence = Number (r_confidence row),
              numDetections = parseInt10 (r_numDetections row),
              detections = safeJsonParse rt (r_detections row) \<rparr>)"
  unfolding mapRow_def toDate_def toNumber_def toInt_def Let_def
  by (cases "newDate rt (r_timestamp row)") auto

lemma mapRow_Inl_iff:
  "(\<exists>e. mapRow rt row = Inl e) \<longleftrightarrow>
     (newDate rt (r_timestamp row) = None \<or> Number (r_mass row) = NaN
       \<or> parseInt10 (r_scanDuration row) = NaN \<or> Number (r_confidence row) = NaN
       \<or> parseInt10 (r_numDetections row) = NaN)"
  unfolding mapRow_def toDate_def toNumber_def toInt_def Let_def
  by (cases "newDate rt (r_timestamp row)") auto

lemma parseInt10_digits:
  assumes "list_all isDigit ds" "ds \<noteq> []" "rest = [] \<or> \<not> isDigit (hd rest)"
  shows "parseInt10 (Some (ds @ rest)) = roundMV (of_nat (digitsValue 10 ds))"
proof -
  have d: "isDigit (hd ds)" using assms(1,2) by (cases ds) auto
  have nw: "\<not> isWhiteSpace (hd ds)"
    using d by (auto simp: isDigit_def isWhiteSpace_def)
  have ns: "hd ds \<noteq> CHR ''-''" "hd ds \<noteq> CHR ''+''"
    using d by (auto simp: isDigit_def)
  have t: "trimStart (ds @ rest) = ds @ rest"
    using nw assms(2) by (cases ds) (auto simp: trimStart_def)
  have tw: "takeWhile isDigit (ds @ rest) = ds"
  proof (cases rest)
    case Nil
    then show ?thesis using assms(1) by (simp add: list_all_iff)
  next
    case (Cons c cs)
    then have "\<not> isDigit c" using assms(3) by simp
    then show ?thesis using assms(1) Cons
      by (simp add: list_all_iff)
  qed
  show ?thesis
    using assms(2) ns tw by (simp add: parseInt10_def ToString_def t Let_def)
qed


text \<open>
  C8 (as stated, refuted): a mass of \<open>Infinity\<close> is not finite, yet the row is
  normalized, with that mass.
\<close>

theorem infinite_mass_is_accepted:
  "mapRow testRuntime (testRow\<lparr>r_mass := Some ''Infinity''\<rparr>) =
     Inr \<lparr> id = Some ''uuid-1'', timestamp = 1767225600000, siteId = Some ''site-1'',
           siteName = Some ''Site Name'', equipmentId = Some ''equip-1'', type = Some ''CH4'',
           mass = Infinity, unit = Some ''kg'', scanDuration = Finite 10,
           confidence = Finite (9 / 10), numDetections = Finite 2, detections = JArr [] \<rparr>"
  by (simp add: mapRow_defs sample_values)

text \<open>
  C8 (amended): the normalizer reads mass and confidence with \<open>Number\<close> and fails the row
  exactly when the value read is NaN. Whenever a row is normalized, its mass and
  confidence are the values read, an infinity included, and neither is NaN.
\<close>

theorem toNumber_fails_exactly_on_NaN:
  "((\<exists>e. toNumber v = Inl e) \<longleftrightarrow> Number v = NaN)
   \<and> (toNumber v = Inr n \<longleftrightarrow> n = Number v \<and> n \<noteq> NaN)
   \<and> (Number (r_mass row) = NaN \<or> Number (r_confidence row) = NaN
        \<longrightarrow> (\<exists>e. mapRow rt row = Inl e))
   \<and> (mapRow rt row = Inr r
        \<longrightarrow> mass r = Number (r_mass row) \<and> confidence r = Number (r_confidence row)
            \<and> mass r \<noteq> NaN \<and> confidence r \<noteq> NaN)"
proof (intro conjI impI)
  show "(\<exists>e. toNumber v = Inl e) \<longleftrightarrow> Number v = NaN"
    by (rule toNumber_Inl_iff)
  show "toNumber v = Inr n \<longleftrightarrow> n = Number v \<and> n \<noteq> NaN"
    by (rule toNumber_Inr_iff)
next
  assume "Number (r_mass row) = NaN \<or> Number (r_confidence row) = NaN"
  then show "\<exists>e. mapRow rt row = Inl e"
    unfolding mapRow_Inl_iff by blast
next
  assume ok: "mapRow rt row = Inr r"
  then obtain ts where
    "Number (r_mass row) \<noteq> NaN" "Number (r_confidence row) \<noteq> NaN"
    "r = \<lparr> id = r_id row, timestamp = ts, siteId = r_siteId row,
              siteName = r_siteName row, equipmentId = r_equipmentId row,
              type = r_type row, mass = Number (r_mass row), unit = r_unit row,
              scanDuration = parseInt10 (r_scanDuration row),
              confidence = Number (r_confidence row),
              numDetections = parseInt10 (r_numDetections row),
              detections = safeJsonParse rt (r_detections row) \<rparr>"
    unfolding mapRow_Inr_iff by blast
  then show "mass r = Number (r_mass row)" "confidence r = Number (r_confidence row)"
    "mass r \<noteq> NaN" "confidence r \<noteq> NaN"
    by simp_all
qed

theorem toNumber_fails_exactly_on_NaN_witness:
  "Number (r_mass (testRow\<lparr>r_mass := Some ''abc''\<rparr>)) = NaN
   \<and> (\<exists>e. mapRow testRuntime (testRow\<lparr>r_mass := Some ''abc''\<rparr>) = Inl e)
   \<and> mapRow testRuntime testRow =
       Inr \<lparr> id = Some ''uuid-1'', timestamp = 1767225600000, siteId = Some ''site-1'',
           siteName = Some ''Site Name'', equipmentId = Some ''equip-1'', type = Some ''CH4'',
           mass = Finite (617 / 50), unit = Some ''kg'', scanDuration = Finite 10,
           confidence = Finite (9 / 10), numDetections = Finite 2, detections = JArr [] \<rparr>
   \<and> mass \<lparr> id = Some ''uuid-1'', timestamp = 1767225600000, siteId = Some ''site-1'',
           siteName = Some ''Site Name'', equipmentId = Some ''equip-1'', type = Some ''CH4'',
           mass = Finite (617 / 50), unit = Some ''kg'', scanDuration = Finite 10,
           confidence = Finite (9 / 10), numDetections = Finite 2, detections = JArr [] \<rparr>
       = Number (r_mass testRow)"
proof -
  have a: "Number (r_mass (testRow\<lparr>r_mass := Some ''abc''\<rparr>)) = NaN"
    by (simp add: sample_values)
  have b: "mapRow testRuntime testRow =
       Inr \<lparr> id = Some ''uuid-1'', timestamp = 1767225600000, siteId = Some ''site-1'',
           siteName = Some ''Site Name'', equipmentId = Some ''equip-1'', type = Some ''CH4'',
           mass = Finite (617 / 50), unit = Some ''kg'', scanDuration = Finite 10,
           confidence = Finite (9 / 10), numDetections = Finite 2, detections = JArr [] \<rparr>"
    by (simp add: mapRow_defs sample_values)
  show ?thesis
    using a b
      toNumber_fails_exactly_on_NaN [of "Some ''abc''" Infinity
        "testRow\<lparr>r_mass := Some ''abc''\<rparr>" testRuntime]
      toNumber_fails_exactly_on_NaN [of "Some ''abc''" Infinity testRow testRuntime
        "\<lparr> id = Some ''uuid-1'', timestamp = 1767225600000, siteId = Some ''site-1'',
           siteName = Some ''Site Name'', equipmentId = Some ''equip-1'', type = Some ''CH4'',
           mass = Finite (617 / 50), unit = Some ''kg'', scanDuration = Finite 10,
           confidence = Finite (9 / 10), numDetections = Finite 2, detections = JArr [] \<rparr>"]
    by blast
qed


text \<open>
  C9 (as stated, refuted): a scan duration of \<open>12.5\<close> and a number of detections of
  \<open>2abc\<close> are not integers, yet the row is normalized, with 12 and 2.
\<close>

theorem truncated_integers_are_accepted:
  "mapRow testRuntime (testRow\<lparr>r_scanDuration := Some ''12.5'', r_numDetections := Some ''2abc''\<rparr>) =
     Inr \<lparr> id = Some ''uuid-1'', timestamp = 1767225600000, siteId = Some ''site-1'',
           siteName = Some ''Site Name'', equipmentId = Some ''equip-1'', type = Some ''CH4'',
           mass = Finite (617 / 50), unit = Some ''kg'', scanDuration = Finite 12,
           confidence = Finite (9 / 10), numDetections = Finite 2, detections = JArr [] \<rparr>"
  by (simp add: mapRow_defs sample_values)

text \<open>
  C9 (amended): the normalizer reads scanDuration and numDetections with
  \<open>parseInt(v, 10)\<close> and fails the row exactly when that yields NaN. A text that starts
  with decimal digits is accepted with the value of its leading digits, whatever follows
  them; whenever a row is normalized, the two fields are the values \<open>parseInt\<close> read.
\<close>

theorem toInt_fails_exactly_on_NaN:
  "((\<exists>e. toInt v = Inl e) \<longleftrightarrow> parseInt10 v = NaN)
   \<and> (list_all isDigit ds \<and> ds \<noteq> [] \<and> (rest = [] \<or> \<not> isDigit (hd rest))
        \<longrightarrow> toInt (Some (ds @ rest)) = Inr (roundMV (of_nat (digitsValue 10 ds))))
   \<and> (parseInt10 (r_scanDuration row) = NaN \<or> parseInt10 (r_numDetections row) = NaN
        \<longrightarrow> (\<exists>e. mapRow rt row = Inl e))
   \<and> (mapRow rt row = Inr r
        \<longrightarrow> scanDuration r = parseInt10 (r_scanDuration row)
            \<and> numDetections r = parseInt10 (r_numDetections row))"
proof (intro conjI impI)
  show "(\<exists>e. toInt v = Inl e) \<longleftrightarrow> parseInt10 v = NaN"
    by (rule toInt_Inl_iff)
next
  assume "list_all isDigit ds \<and> ds \<noteq> [] \<and> (rest = [] \<or> \<not> isDigit (hd rest))"
  then have "parseInt10 (Some (ds @ rest)) = roundMV (of_nat (digitsValue 10 ds))"
    by (simp add: parseInt10_digits)
  then show "toInt (Some (ds @ rest)) = Inr (roundMV (of_nat (digitsValue 10 ds)))"
    by (simp add: toInt_Inr_iff roundMV_not_NaN)
next
  assume "parseInt10 (r_scanDuration row) = NaN \<or> parseInt10 (r_numDetections row) = NaN"
  then show "\<exists>e. mapRow rt row = Inl e"
    unfolding mapRow_Inl_iff by blast
next
  assume "mapRow rt row = Inr r"
  then obtain ts where
    "r = \<lparr> id = r_id row, timestamp = ts, siteId = r_siteId row,
              siteName = r_siteName row, equipmentId = r_equipmentId row,
              type = r_type row, mass = Number (r_mass row), unit = r_unit row,
              scanDuration = parseInt10 (r_scanDuration row),
              confidence = Number (r_confidence row),
              numDetections = parseInt10 (r_numDetections row),
              detections = safeJsonParse rt (r_detections row) \<rparr>"
    unfolding mapRow_Inr_iff by blast
  then show "scanDuration r = parseInt10 (r_scanDuration row)"
    "numDetections r = parseInt10 (r_numDetections row)"
    by simp_all
qed

theorem toInt_fails_exactly_on_NaN_witness:
  "toInt (Some ''12.5'') = Inr (Finite 12)
   \<and> (\<exists>e. mapRow testRuntime (testRow\<lparr>r_scanDuration := Some ''abc''\<rparr>) = Inl e)
   \<and> scanDuration \<lparr> id = Some ''uuid-1'', timestamp = 1767225600000, siteId = Some ''site-1'',
           siteName = Some ''Site Name'', equipmentId = Some ''equip-1'', type = Some ''CH4'',
           mass = Finite (617 / 50), unit = Some ''kg'', scanDuration = Finite 10,
           confidence = Finite (9 / 10), numDetections = Finite 2, detections = JArr [] \<rparr>
       = parseInt10 (r_scanDuration testRow)"
proof -
  have a: "list_all isDigit ''12'' \<and> ''12'' \<noteq> [] \<and> (''.5'' = [] \<or> \<not> isDigit (hd ''.5''))"
    by (simp add: isDigit_def)
  have v: "roundMV (of_nat (digitsValue 10 ''12'')) = Finite 12"
    by (simp add: roundMV_def digitsValue_def digitValue_def)
  have b: "parseInt10 (r_scanDuration (testRow\<lparr>r_scanDuration := Some ''abc''\<rparr>)) = NaN"
    by (simp add: sample_values)
  have c: "mapRow testRuntime testRow =
       Inr \<lparr> id = Some ''uuid-1'', timestamp = 1767225600000, siteId = Some ''site-1'',
           siteName = Some ''Site Name'', equipmentId = Some ''equip-1'', type = Some ''CH4'',
           mass = Finite (617 / 50), unit = Some ''kg'', scanDuration = Finite 10,
           confidence = Finite (9 / 10), numDetections = Finite 2, detections = JArr [] \<rparr>"
    by (simp add: mapRow_defs sample_values)
  have 1: "toInt (Some ''12.5'') = Inr (Finite 12)"
    using a v toInt_fails_exactly_on_NaN [of "Some ''abc''" "''12''" "''.5''" testRow testRuntime]
    by simp
  have 2: "\<exists>e. mapRow testRuntime (testRow\<lparr>r_scanDuration := Some ''abc''\<rparr>) = Inl e"
    using b toInt_fails_exactly_on_NaN [of "Some ''abc''" "''12''" "''.5''"
        "testRow\<lparr>r_scanDuration := Some ''abc''\<rparr>" testRuntime]
    by blast
  have 3: "scanDuration \<lparr> id = Some ''uuid-1'', timestamp = 1767225600000, siteId = Some ''site-1'',
           siteName = Some ''Site Name'', equipmentId = Some ''equip-1'', type = Some ''CH4'',
           mass = Finite (617 / 50), unit = Some ''kg'', scanDuration = Finite 10,
           confidence = Finite (9 / 10), numDetections = Finite 2, detections = JArr [] \<rparr>
       = parseInt10 (r_scanDuration testRow)"
    using c toInt_fails_exactly_on_NaN [of "Some ''abc''" "''12''" "''.5''" testRow testRuntime]
    by blast
  show ?thesis using 1 2 3 by blast
qed


section \<open>Properties of the flusher and of the ingestion run\<close>

lemma mapRow_testRow: "mapRow testRuntime testRow = Inr testDoc"
  by (simp add: mapRow_defs sample_values testDoc_def)

lemma flushBatch_empty: "batch st = [] \<Longrightarrow> flushBatch ins st = Inr st"
  by (simp add: flushBatch_def)

lemma flushBatch_Resolved:
  "batch st \<noteq> [] \<Longrightarrow> ins (col st) (batch st) = (Resolved n, c') \<Longrightarrow>
   flushBatch ins st = Inr (st\<lparr>batch := [], inserted := inserted st + n, col := c'\<rparr>)"
  by (simp add: flushBatch_def Let_def)

lemma flushBatch_absorbed:
  "batch st \<noteq> [] \<Longrightarrow> ins (col st) (batch st) = (Rejected err, c') \<Longrightarrow>
   writeErrors err = Some wes \<Longrightarrow>
   flushBatch ins st = Inr (st\<lparr>batch := [], skipped := skipped st + dupes wes,
                              inserted := inserted st + successful err, col := c'\<rparr>)"
  by (simp add: flushBatch_def Let_def)

lemma flushBatch_thrown:
  "batch st \<noteq> [] \<Longrightarrow> ins (col st) (batch st) = (Rejected err, c') \<Longrightarrow>
   writeErrors err = None \<Longrightarrow> flushBatch ins st = Inl err"
  by (simp add: flushBatch_def Let_def)

lemma flushBatch_Inl_iff:
  "flushBatch ins st = Inl err \<longleftrightarrow>
     batch st \<noteq> [] \<and> fst (ins (col st) (batch st)) = Rejected err \<and> writeErrors err = None"
  by (auto simp: flushBatch_def Let_def split: prod.splits insert_outcome.splits option.splits)


lemma successful_cases:
  "successful err =
     (if \<exists>n. nInserted err = Some n \<and> n \<noteq> 0 then the (nInserted err)
      else if \<exists>m. insertedCount err = Some m then the (insertedCount err)
      else 0)"
  by (auto simp: successful_def split: option.splits)

subsection \<open>The collection with the unique index\<close>





subsection \<open>What a flush does with a rejected write\<close>

text \<open>
  C4 (as stated, refuted): a bulk write that fails with a write error that is no
  duplicate-key error (121, the document failed validation) is not rethrown. The flush
  returns, the batch is gone and neither counter has moved.
\<close>

theorem validation_write_error_is_absorbed:
  "flushBatch validatingInsertMany \<lparr>batch = [testDoc], inserted = 0, skipped = 0, col = ()\<rparr>
     = Inr \<lparr>batch = [], inserted = 0, skipped = 0, col = ()\<rparr>"
  by (simp add: flushBatch_def validatingInsertMany_def dupes_def successful_def)

text \<open>
  C4 (amended): a flush whose bulk write is rejected rethrows the error, so that the
  promise of \<open>flushBatch\<close> rejects with it, exactly when the error carries no
  \<open>writeErrors\<close>. An error that carries \<open>writeErrors\<close> is absorbed whatever the codes of
  its entries are: the flush returns, the entries with code 11000 are added to the skipped
  counter, and \<open>result.nInserted\<close>, or else \<open>result.insertedCount\<close>, to the inserted one.
  The same holds of the second half of a flush taken alone. What a rejected flush does
  to the run is not part of the statement.
\<close>

theorem flushBatch_rethrows_exactly_without_writeErrors:
  "(batch st \<noteq> [] \<and> ins (col st) (batch st) = (Rejected err, c')
      \<longrightarrow> (writeErrors err = None \<longrightarrow> flushBatch ins st = Inl err)
        \<and> (\<forall>wes. writeErrors err = Some wes \<longrightarrow>
              (\<exists>k. flushBatch ins st =
                      Inr (st\<lparr>batch := [],
                              skipped := skipped st + length (filter (\<lambda>c. c = 11000) wes),
                              inserted := inserted st + k, col := c'\<rparr>)
                 \<and> (\<forall>n. nInserted err = Some n \<and> n \<noteq> 0 \<longrightarrow> k = n)
                 \<and> (\<forall>m. (nInserted err = None \<or> nInserted err = Some 0)
                        \<and> insertedCount err = Some m \<longrightarrow> k = m)
                 \<and> ((nInserted err = None \<or> nInserted err = Some 0)
                        \<and> insertedCount err = None \<longrightarrow> k = 0))))
   \<and> (flushBatch ins st = Inl e
      \<longrightarrow> batch st \<noteq> [] \<and> fst (ins (col st) (batch st)) = Rejected e \<and> writeErrors e = None)
   \<and> (flushSettle (Rejected err) st = Inl e \<longleftrightarrow> e = err \<and> writeErrors err = None)
   \<and> (\<forall>wes. writeErrors err = Some wes \<longrightarrow>
          (\<exists>st'. flushSettle (Rejected err) st = Inr st' \<and> batch st' = batch st
             \<and> skipped st' = skipped st + length (filter (\<lambda>c. c = 11000) wes)))"
proof (intro conjI impI allI)
  assume "batch st \<noteq> [] \<and> ins (col st) (batch st) = (Rejected err, c')"
    and "writeErrors err = None"
  then show "flushBatch ins st = Inl err"
    by (simp add: flushBatch_thrown)
next
  fix wes
  assume a: "batch st \<noteq> [] \<and> ins (col st) (batch st) = (Rejected err, c')"
    and w: "writeErrors err = Some wes"
  have f: "flushBatch ins st =
      Inr (st\<lparr>batch := [], skipped := skipped st + length (filter (\<lambda>c. c = 11000) wes),
              inserted := inserted st + successful err, col := c'\<rparr>)"
    using a w flushBatch_absorbed [of st ins err c' wes] by (simp add: dupes_def)
  have 1: "\<forall>n. nInserted err = Some n \<and> n \<noteq> 0 \<longrightarrow> successful err = n"
    by (simp add: successful_def)
  have 2: "\<forall>m. (nInserted err = None \<or> nInserted err = Some 0)
                        \<and> insertedCount err = Some m \<longrightarrow> successful err = m"
    by (auto simp: successful_def)
  have 3: "(nInserted err = None \<or> nInserted err = Some 0)
                        \<and> insertedCount err = None \<longrightarrow> successful err = 0"
    by (auto simp: successful_def)
  show "\<exists>k. flushBatch ins st =
                      Inr (st\<lparr>batch := [],
                              skipped := skipped st + length (filter (\<lambda>c. c = 11000) wes),
                              inserted := inserted st + k, col := c'\<rparr>)
                 \<and> (\<forall>n. nInserted err = Some n \<and> n \<noteq> 0 \<longrightarrow> k = n)
                 \<and> (\<forall>m. (nInserted err = None \<or> nInserted err = Some 0)
                        \<and> insertedCount err = Some m \<longrightarrow> k = m)
                 \<and> ((nInserted err = None \<or> nInserted err = Some 0)
                        \<and> insertedCount err = None \<longrightarrow> k = 0)"
    using f 1 2 3 by blast
next
  assume h: "flushBatch ins st = Inl e"
  then show "batch st \<noteq> []" "fst (ins (col st) (batch st)) = Rejected e" "writeErrors e = None"
    by (simp_all add: flushBatch_Inl_iff)
next
  show "flushSettle (Rejected err) st = Inl e \<longleftrightarrow> e = err \<and> writeErrors err = None"
    by (auto simp: flushSettle_def split: option.splits)
next
  fix wes
  assume "writeErrors err = Some wes"
  then show "\<exists>st'. flushSettle (Rejected err) st = Inr st' \<and> batch st' = batch st
             \<and> skipped st' = skipped st + length (filter (\<lambda>c. c = 11000) wes)"
    by (simp add: flushSettle_def dupes_def)
qed

theorem flushBatch_rethrows_exactly_without_writeErrors_witness:
  "flushBatch unreachableInsertMany \<lparr>batch = [testDoc], inserted = 0, skipped = 0, col = ()\<rparr>
     = Inl \<lparr>message = ''connect ECONNREFUSED'', writeErrors = None,
             nInserted = None, insertedCount = None\<rparr>
   \<and> flushBatch validatingInsertMany \<lparr>batch = [testDoc], inserted = 0, skipped = 0, col = ()\<rparr>
     = Inr \<lparr>batch = [], inserted = 0, skipped = 0, col = ()\<rparr>"
proof -
  let ?E = "\<lparr>message = ''connect ECONNREFUSED'', writeErrors = None,
             nInserted = None, insertedCount = None\<rparr>"
  let ?V = "\<lparr>message = ''Document failed validation'', writeErrors = Some [121],
             nInserted = Some 0, insertedCount = Some 0\<rparr>"
  let ?st = "\<lparr>batch = [testDoc], inserted = 0, skipped = 0, col = ()\<rparr>"
  have u: "batch ?st \<noteq> [] \<and> unreachableInsertMany (col ?st) (batch ?st) = (Rejected ?E, ())"
    by (simp add: unreachableInsertMany_def)
  have v: "batch ?st \<noteq> [] \<and> validatingInsertMany (col ?st) (batch ?st) = (Rejected ?V, ())"
    by (simp add: validatingInsertMany_def)
  have 1: "flushBatch unreachableInsertMany ?st = Inl ?E"
    using u flushBatch_rethrows_exactly_without_writeErrors
      [of ?st unreachableInsertMany ?E "()" ?E]
    by simp
  have "\<exists>k. flushBatch validatingInsertMany ?st =
                Inr (?st\<lparr>batch := [],
                        skipped := skipped ?st + length (filter (\<lambda>c. c = 11000) [121 :: nat]),
                        inserted := inserted ?st + k, col := ()\<rparr>)
           \<and> (\<forall>m. (nInserted ?V = None \<or> nInserted ?V = Some 0)
                        \<and> insertedCount ?V = Some m \<longrightarrow> k = m)"
    using v flushBatch_rethrows_exactly_without_writeErrors
      [of ?st validatingInsertMany ?V "()" ?E]
    by simp
  then have 2: "flushBatch validatingInsertMany ?st
                  = Inr \<lparr>batch = [], inserted = 0, skipped = 0, col = ()\<rparr>"
    by auto
  show ?thesis using 1 2 by (intro conjI)
qed

subsection \<open>The run\<close>

text \<open>
  C5 (the code departs from it), at \<open>BATCH_SIZE = 1\<close> and an input of three rows over
  an empty collection. The handler of the first row fills the batch, starts the flush and
  returns: the batch is empty, the write is in flight, the parser is paused with the two
  other rows in it. The promise of \<open>pipeline\<close> does not wait for any of that; when \<open>main\<close>
  goes on, its last \<open>flushBatch\<close> finds the batch empty and \<open>DONE\<close> is printed with
  \<open>inserted = 0\<close> and \<open>skipped = 0\<close>.
\<close>

theorem done_is_printed_while_the_write_is_in_flight:
  "onData testRuntime (Finite 1)
     \<lparr>vars = \<lparr>batch = [], inserted = 0, skipped = 0, col = ([] :: emission list)\<rparr>,
       paused = False, pending = [], destroyed = None\<rparr> testRow
     = \<lparr>vars = \<lparr>batch = [], inserted = 0, skipped = 0, col = []\<rparr>,
         paused = True, pending = [[testDoc]], destroyed = None\<rparr>
   \<and> mainAfterPipeline \<lparr>batch = [], inserted = 0, skipped = 0, col = ([] :: emission list)\<rparr>
     = Inl (0, 0)"
  by (simp add: onData_def mapRow_testRow lengthGe_def flushStart_def mainAfterPipeline_def
      Let_def)

subsection \<open>A blank number on its way to the collection\<close>



section \<open>Properties of the query route\<close>

subsection \<open>What a filter selects\<close>

lemma map_of_docOf:
  "map_of (docOf d) ''_id'' = Some (BObjectId (oid d))"
  "map_of (docOf d) ''timestamp'' = Some (BDate (timestamp d))"
  "map_of (docOf d) ''siteId'' = Some (bsonOf (siteId d))"
  "map_of (docOf d) ''equipmentId'' = Some (bsonOf (equipmentId d))"
  "map_of (docOf d) ''confidence'' = Some (BDouble (confidence d))"
  by (simp_all add: docOf_def)

lemma bsonOf_eq_BString: "bsonOf v = BString s \<longleftrightarrow> v = Some s"
  by (cases v) (simp_all add: bsonOf_def)

lemma matches_append: "matches (f @ g) d \<longleftrightarrow> matches f d \<and> matches g d"
  by (simp add: matches_def)

lemma matches_baseFilter:
  "matches (baseFilter rt req) (docOf d) \<longleftrightarrow>
     siteId d = Some (q_siteId req) \<and> equipmentId d = Some (q_equipmentId req)
     \<and> (numLt (Finite (q_confidenceMin req)) (confidence d)
          \<or> confidence d = Finite (q_confidenceMin req))
     \<and> (case fst (timeFilter rt req) of None \<Rightarrow> True | Some a \<Rightarrow> a \<le> timestamp d)
     \<and> (case snd (timeFilter rt req) of None \<Rightarrow> True | Some b \<Rightarrow> timestamp d \<le> b)"
proof -
  obtain a b where w: "timeFilter rt req = (a, b)"
    by (cases "timeFilter rt req")
  show ?thesis
    by (cases a; cases b)
      (auto simp: matches_def baseFilter_def w map_of_docOf bsonOf_eq_BString evalOp_def
        bsonLt_def)
qed

lemma matches_cursorFilter:
  "matchesClause (docOf d) (cursorFilter ts i) \<longleftrightarrow>
     timestamp d < ts \<or> (timestamp d = ts \<and> oid d < i)"
  by (auto simp: cursorFilter_def map_of_docOf evalOp_def bsonLt_def)

lemma after_cursor_iff_less:
  "(timestamp d < ts \<or> (timestamp d = ts \<and> oid d < i)) \<longleftrightarrow> sortKey d < (ts, i)"
  by (auto simp: sortKey_def less_prod_def)


subsection \<open>The order of the collection\<close>

lemma sortKey_inj: "distinct (map oid ds) \<Longrightarrow> inj_on sortKey (set ds)"
  by (auto simp: distinct_map inj_on_def sortKey_def)

lemma sorted_descending:
  assumes "distinct (map oid store)"
  shows "sorted_wrt (\<lambda>x y. sortKey y < sortKey x) (rev (sort_key sortKey (filter P store)))"
proof -
  let ?S = "sort_key sortKey (filter P store)"
  have d: "distinct store" using assms by (simp add: distinct_map)
  have "inj_on sortKey (set store)" using assms by (rule sortKey_inj)
  then have "inj_on sortKey (set ?S)" by (rule inj_on_subset) auto
  moreover have "distinct ?S" using d by simp
  ultimately have "distinct (map sortKey ?S)" by (simp add: distinct_map)
  moreover have "sorted (map sortKey ?S)" by simp
  ultimately have "sorted_wrt (<) (map sortKey ?S)" by (simp add: strict_sorted_iff)
  then have "sorted_wrt (\<lambda>x y. sortKey x < sortKey y) ?S" by (simp add: sorted_wrt_map)
  then show ?thesis by (simp add: sorted_wrt_rev)
qed

lemma filter_below_nth:
  fixes key :: "'a \<Rightarrow> 'b::linorder"
  shows "sorted_wrt (\<lambda>x y. key y < key x) L \<Longrightarrow> k < length L \<Longrightarrow>
         filter (\<lambda>d. key d < key (L ! k)) L = drop (Suc k) L"
proof (induction L arbitrary: k)
  case Nil
  then show ?case by simp
next
  case (Cons x xs)
  show ?case
  proof (cases k)
    case 0
    have "\<forall>y\<in>set xs. key y < key x" using Cons.prems(1) by simp
    then have "filter (\<lambda>d. key d < key x) xs = xs" by (simp add: filter_id_conv)
    then show ?thesis using 0 by simp
  next
    case (Suc k')
    then have k': "k' < length xs" using Cons.prems(2) by simp
    have "key (xs ! k') < key x" using Cons.prems(1) k' by simp
    then have "\<not> key x < key (xs ! k')" by simp
    moreover have "filter (\<lambda>d. key d < key (xs ! k')) xs = drop (Suc k') xs"
      using Cons.IH [of k'] Cons.prems(1) k' by simp
    ultimately show ?thesis using Suc by simp
  qed
qed

lemma cursor_selects_rest:
  assumes "distinct (map oid store)"
    and "L = rev (sort_key sortKey (filter P store))"
    and "k < length L"
  shows "rev (sort_key sortKey
           (filter (\<lambda>d. P d \<and> (timestamp d < timestamp (L ! k)
                      \<or> (timestamp d = timestamp (L ! k) \<and> oid d < oid (L ! k)))) store))
         = drop (Suc k) L"
proof -
  have s: "sorted_wrt (\<lambda>x y. sortKey y < sortKey x) L"
    unfolding assms(2) using assms(1) by (rule sorted_descending)
  have e: "(\<lambda>d. P d \<and> (timestamp d < timestamp (L ! k)
                      \<or> (timestamp d = timestamp (L ! k) \<and> oid d < oid (L ! k))))
           = (\<lambda>d. P d \<and> sortKey d < sortKey (L ! k))"
    by (auto simp: sortKey_def less_prod_def)
  have "rev (sort_key sortKey (filter (\<lambda>d. P d \<and> sortKey d < sortKey (L ! k)) store))
        = filter (\<lambda>d. sortKey d < sortKey (L ! k)) L"
    unfolding assms(2) by (simp add: rev_filter [symmetric] filter_sort conj_commute)
  also have "\<dots> = drop (Suc k) L"
    using s assms(3) by (rule filter_below_nth)
  finally show ?thesis unfolding e .
qed


subsection \<open>One request\<close>

lemma project_lookup:
  "map_of (project (projection inc) (docOf d)) ''timestamp'' = Some (BDate (timestamp d))"
  "map_of (project (projection inc) (docOf d)) ''_id'' = Some (BObjectId (oid d))"
  by (simp_all add: project_def projection_def docOf_def)

lemma respond_page:
  assumes "1 \<le> q_limit req"
  shows "respond rt req (map (\<lambda>d. project (projection inc) (docOf d)) ds) =
     Reply 200 (Page \<lparr> count = min (nat (q_limit req)) (length ds),
       p_siteId = q_siteId req, p_equipmentId = q_equipmentId req,
       nextCursor =
         (if nat (q_limit req) < length ds
          then Some (toISOString rt (timestamp (ds ! (nat (q_limit req) - 1))),
                     oidToString rt (oid (ds ! (nat (q_limit req) - 1))))
          else None),
       items = map (\<lambda>d. project (projection inc) (docOf d)) (take (nat (q_limit req)) ds) \<rparr>)"
proof (cases "nat (q_limit req) < length ds")
  case True
  let ?m = "nat (q_limit req)"
  let ?pr = "\<lambda>d. project (projection inc) (docOf d)"
  have m: "0 < ?m" using assms by simp
  have hm: "q_limit req < int (length ds)" using True assms by linarith
  have sl: "slice0 (q_limit req) (map ?pr ds) = map ?pr (take ?m ds)"
    using assms by (simp add: slice0_def take_map)
  have ne: "take ?m ds \<noteq> []" using True m by (cases ds) auto
  have la: "last (take ?m ds) = ds ! (?m - 1)"
    using True m ne by (simp add: last_conv_nth min_def)
  have lp: "last (map ?pr (take ?m ds)) = ?pr (ds ! (?m - 1))"
    using ne la by (simp add: last_map)
  show ?thesis
    using True hm ne
    by (simp add: respond_def Let_def sl lp project_lookup String_def min_def)
next
  case False
  then have "\<not> q_limit req < int (length ds)" using assms by linarith
  then show ?thesis using False
    by (simp add: respond_def Let_def min_def)
qed

lemma mongoFind_planned:
  assumes "1 \<le> q_limit req"
  shows "mongoFind store (planQuery rt req) =
     Some (map (\<lambda>d. project (projection (q_includeDetections req)) (docOf d))
            (take (Suc (nat (q_limit req)))
               (rev (sort_key sortKey
                  (filter (\<lambda>d. matches (c_filter (planQuery rt req)) (docOf d)) store)))))"
proof -
  have "nat \<bar>q_limit req + 1\<bar> = Suc (nat (q_limit req))" using assms by linarith
  moreover have "q_limit req + 1 \<noteq> 0" using assms by linarith
  ultimately show ?thesis
    by (simp add: mongoFind_def planQuery_def limitDocs_def sortDocs_def)
qed

lemma handler_valid:
  "validate rt req = None \<Longrightarrow>
   handler rt find1 req =
     (case find1 (planQuery rt req) of
        None \<Rightarrow> (Reply 500 (Message ''Internal server error''), [planQuery rt req])
      | Some docs \<Rightarrow> (respond rt req docs, [planQuery rt req]))"
  by (simp add: handler_def Let_def)

lemma handler_invalid:
  "validate rt req = Some msg \<Longrightarrow> handler rt find1 req = (Reply 400 (Message msg), [])"
  by (simp add: handler_def)

text \<open>The documents that the filter of a planned query selects.\<close>

lemma planned_filter_no_cursor:
  "cursorOf rt req = None \<Longrightarrow>
   matches (c_filter (planQuery rt req)) (docOf d) \<longleftrightarrow> matches (baseFilter rt req) (docOf d)"
  by (simp add: planQuery_def matches_def)

lemma planned_filter_cursor:
  "cursorOf rt req = Some (ts, i) \<Longrightarrow>
   matches (c_filter (planQuery rt req)) (docOf d) \<longleftrightarrow>
     matches (baseFilter rt req) (docOf d)
     \<and> (timestamp d < ts \<or> (timestamp d = ts \<and> oid d < i))"
  using matches_cursorFilter [of d ts i]
  by (simp add: planQuery_def matches_append) (simp add: matches_def)

text \<open>
  The page that a request at offset \<open>j\<close> of the selection gets: the cursor of the request,
  if any, is the position of the document before \<open>j\<close>.
\<close>

lemma page_at_offset:
  assumes sv: "schemaValid req"
    and va: "validate rt req = None"
    and di: "distinct (map oid store)"
    and L: "L = rev (sort_key sortKey (filter (\<lambda>d. matches (baseFilter rt req) (docOf d)) store))"
    and cu: "(j = 0 \<and> cursorOf rt req = None)
             \<or> (0 < j \<and> j \<le> length L
                 \<and> cursorOf rt req = Some (timestamp (L ! (j - 1)), oid (L ! (j - 1))))"
  shows "getEmissions rt (mongoFind store) req =
     (Reply 200 (Page \<lparr> count = min (nat (q_limit req)) (length L - j),
        p_siteId = q_siteId req, p_equipmentId = q_equipmentId req,
        nextCursor =
          (if nat (q_limit req) < length L - j
           then Some (toISOString rt (timestamp (L ! (j + nat (q_limit req) - 1))),
                      oidToString rt (oid (L ! (j + nat (q_limit req) - 1))))
           else None),
        items = map (\<lambda>d. project (projection (q_includeDetections req)) (docOf d))
                  (take (nat (q_limit req)) (drop j L)) \<rparr>),
      [planQuery rt req])"
proof -
  let ?m = "nat (q_limit req)"
  have lim: "1 \<le> q_limit req" using sv by (simp add: schemaValid_def)
  have sel: "rev (sort_key sortKey
               (filter (\<lambda>d. matches (c_filter (planQuery rt req)) (docOf d)) store)) = drop j L"
  proof (cases "j = 0")
    case True
    then have "cursorOf rt req = None" using cu by simp
    then show ?thesis using True by (simp add: planned_filter_no_cursor L)
  next
    case False
    then have j: "0 < j" "j \<le> length L"
      and c: "cursorOf rt req = Some (timestamp (L ! (j - 1)), oid (L ! (j - 1)))"
      using cu by simp_all
    have k: "j - 1 < length L" using j by simp
    have "rev (sort_key sortKey
           (filter (\<lambda>d. matches (baseFilter rt req) (docOf d)
              \<and> (timestamp d < timestamp (L ! (j - 1))
                  \<or> (timestamp d = timestamp (L ! (j - 1)) \<and> oid d < oid (L ! (j - 1))))) store))
          = drop (Suc (j - 1)) L"
      using di L k by (rule cursor_selects_rest)
    then show ?thesis using j by (simp add: planned_filter_cursor [OF c])
  qed
  have nth: "nat (q_limit req) < length L - j \<Longrightarrow>
             take (Suc ?m) (drop j L) ! (?m - 1) = L ! (j + ?m - 1)"
    using lim by simp
  have fnd: "mongoFind store (planQuery rt req) =
     Some (map (\<lambda>d. project (projection (q_includeDetections req)) (docOf d))
            (take (Suc ?m) (drop j L)))"
    using mongoFind_planned [OF lim, of store rt] by (simp add: sel)
  have "respond rt req (map (\<lambda>d. project (projection (q_includeDetections req)) (docOf d))
            (take (Suc ?m) (drop j L)))
        = Reply 200 (Page \<lparr> count = min (nat (q_limit req)) (length L - j),
        p_siteId = q_siteId req, p_equipmentId = q_equipmentId req,
        nextCursor =
          (if nat (q_limit req) < length L - j
           then Some (toISOString rt (timestamp (L ! (j + nat (q_limit req) - 1))),
                      oidToString rt (oid (L ! (j + nat (q_limit req) - 1))))
           else None),
        items = map (\<lambda>d. project (projection (q_includeDetections req)) (docOf d))
                  (take (nat (q_limit req)) (drop j L)) \<rparr>)"
    using nth by (simp add: respond_page [OF lim] min_def)
  then show ?thesis
    using sv by (simp add: getEmissions_def handler_valid [OF va] fnd)
qed


subsection \<open>Following the cursor\<close>

lemma timeFilter_cursor_update [simp]:
  "timeFilter rt (req\<lparr>q_cursorTs := a, q_cursorId := b\<rparr>) = timeFilter rt req"
  by (simp add: timeFilter_def)

lemma baseFilter_cursor_update [simp]:
  "baseFilter rt (req\<lparr>q_cursorTs := a, q_cursorId := b\<rparr>) = baseFilter rt req"
  by (simp add: baseFilter_def)

lemma schemaValid_cursor_update [simp]:
  "schemaValid (req\<lparr>q_cursorTs := a, q_cursorId := b\<rparr>) = schemaValid req"
  by (simp add: schemaValid_def)

lemma cursorOf_no_cursor:
  "\<not> truthy (q_cursorTs req) \<Longrightarrow> \<not> truthy (q_cursorId req) \<Longrightarrow> cursorOf rt req = None"
  by (simp add: cursorOf_def)

lemma validate_with_cursor:
  assumes "validate rt req = None"
    and "\<not> truthy (q_cursorTs req)" "\<not> truthy (q_cursorId req)"
    and "cts \<noteq> []" "cid \<noteq> []" "dateParse rt cts = Some t" "newObjectId rt cid = Some i"
  shows "validate rt (req\<lparr>q_cursorTs := Some cts, q_cursorId := Some cid\<rparr>) = None"
    and "cursorOf rt (req\<lparr>q_cursorTs := Some cts, q_cursorId := Some cid\<rparr>) = Some (t, i)"
  using assms
  by (simp_all add: validate_def cursorOf_def timeFilter_def truthy_def newDate_def ToString_def
      split: if_splits)

lemma paginate_from_offset:
  assumes sv: "schemaValid req0"
    and va: "validate rt req0 = None"
    and nc: "\<not> truthy (q_cursorTs req0)" "\<not> truthy (q_cursorId req0)"
    and di: "distinct (map oid store)"
    and rt: "\<forall>d\<in>set store.
               toISOString rt (timestamp d) \<noteq> []
               \<and> dateParse rt (toISOString rt (timestamp d)) = Some (timestamp d)
               \<and> oidToString rt (oid d) \<noteq> []
               \<and> newObjectId rt (oidToString rt (oid d)) = Some (oid d)"
    and L: "L = rev (sort_key sortKey (filter (\<lambda>d. matches (baseFilter rt req0) (docOf d)) store))"
  shows "j \<le> length L \<Longrightarrow> length L - j < n \<Longrightarrow>
         \<exists>pages.
           paginate n rt (mongoFind store)
             (if j = 0 then req0
              else req0\<lparr>q_cursorTs := Some (toISOString rt (timestamp (L ! (j - 1)))),
                        q_cursorId := Some (oidToString rt (oid (L ! (j - 1))))\<rparr>)
             = Some (Inr pages)
           \<and> concat pages
               = map (\<lambda>d. project (projection (q_includeDetections req0)) (docOf d)) (drop j L)
           \<and> (\<forall>p\<in>set pages. length p \<le> nat (q_limit req0))"
proof (induction n arbitrary: j)
  case 0
  then show ?case by simp
next
  case (Suc n)
  let ?m = "nat (q_limit req0)"
  let ?pr = "\<lambda>d. project (projection (q_includeDetections req0)) (docOf d)"
  let ?at = "\<lambda>j. if j = 0 then req0
              else req0\<lparr>q_cursorTs := Some (toISOString rt (timestamp (L ! (j - 1)))),
                        q_cursorId := Some (oidToString rt (oid (L ! (j - 1))))\<rparr>"
  have m: "0 < ?m" using sv by (simp add: schemaValid_def)
  have sub: "set L \<subseteq> set store" by (auto simp: L)
  have at: "schemaValid (?at j) \<and> validate rt (?at j) = None
            \<and> baseFilter rt (?at j) = baseFilter rt req0
            \<and> q_limit (?at j) = q_limit req0
            \<and> q_includeDetections (?at j) = q_includeDetections req0
            \<and> ((j = 0 \<and> cursorOf rt (?at j) = None)
                \<or> (0 < j \<and> j \<le> length L
                    \<and> cursorOf rt (?at j) = Some (timestamp (L ! (j - 1)), oid (L ! (j - 1)))))"
  proof (cases "j = 0")
    case True
    then show ?thesis using sv va nc by (simp add: cursorOf_no_cursor)
  next
    case False
    then have "L ! (j - 1) \<in> set store" using Suc.prems(1) sub by (simp add: subset_iff)
    then have r: "toISOString rt (timestamp (L ! (j - 1))) \<noteq> []"
      "dateParse rt (toISOString rt (timestamp (L ! (j - 1)))) = Some (timestamp (L ! (j - 1)))"
      "oidToString rt (oid (L ! (j - 1))) \<noteq> []"
      "newObjectId rt (oidToString rt (oid (L ! (j - 1)))) = Some (oid (L ! (j - 1)))"
      using rt by simp_all
    show ?thesis
      using False sv Suc.prems(1) validate_with_cursor [OF va nc(1) nc(2) r(1) r(3) r(2) r(4)] by simp
  qed
  have L': "L = rev (sort_key sortKey
                (filter (\<lambda>d. matches (baseFilter rt (?at j)) (docOf d)) store))"
    using at L by simp
  have pg: "getEmissions rt (mongoFind store) (?at j) =
     (Reply 200 (Page \<lparr> count = min ?m (length L - j),
        p_siteId = q_siteId (?at j), p_equipmentId = q_equipmentId (?at j),
        nextCursor =
          (if ?m < length L - j
           then Some (toISOString rt (timestamp (L ! (j + ?m - 1))),
                      oidToString rt (oid (L ! (j + ?m - 1))))
           else None),
        items = map ?pr (take ?m (drop j L)) \<rparr>),
      [planQuery rt (?at j)])"
    using page_at_offset [of "?at j" rt store L j, OF _ _ di L'] at by simp
  show ?case
  proof (cases "?m < length L - j")
    case False
    then have "take ?m (drop j L) = drop j L" by simp
    then show ?thesis using False pg by simp
  next
    case True
    have j': "j + ?m \<le> length L" "length L - (j + ?m) < n" "j + ?m \<noteq> 0"
      using True m Suc.prems(2) by simp_all
    have nx: "(?at j)\<lparr>q_cursorTs := Some (toISOString rt (timestamp (L ! (j + ?m - 1)))),
                      q_cursorId := Some (oidToString rt (oid (L ! (j + ?m - 1))))\<rparr>
              = ?at (j + ?m)"
      using j'(3) m by auto
    from Suc.IH [OF j'(1,2)] obtain pages where
      ih: "paginate n rt (mongoFind store) (?at (j + ?m)) = Some (Inr pages)"
        "concat pages = map ?pr (drop (j + ?m) L)"
        "\<forall>p\<in>set pages. length p \<le> ?m"
      by blast
    have cc: "map ?pr (take ?m (drop j L)) @ map ?pr (drop (j + ?m) L) = map ?pr (drop j L)"
      by (metis add.commute append_take_drop_id drop_drop map_append)
    have "paginate (Suc n) rt (mongoFind store) (?at j)
            = Some (Inr (map ?pr (take ?m (drop j L)) # pages))"
      using True pg nx ih(1) by (simp del: paginate.simps(1) add: )
    then show ?thesis using ih(2,3) cc by simp
  qed
qed


subsection \<open>Evaluation on the test collection\<close>

lemmas route_defs = getEmissions_def handler_def validate_def cursorOf_def planQuery_def
  respond_def schemaValid_def timeFilter_def baseFilter_def cursorFilter_def projection_def
  slice0_def String_def truthy_def newDate_def ToString_def

lemmas store_defs = mongoFind_def limitDocs_def sortDocs_def sortKey_def matches_def
  project_def docOf_def bsonOf_def evalOp_def bsonLt_def numLt_def

lemmas test_defs = testStore_def storedAt_def testRequest_def testRuntime_def
  testDateParse_def testToISOString_def testNewObjectId_def testOidToString_def
  isRadixDigit_def digitValue_def digitsValue_def

lemma testRuntime_round_trip:
  "\<forall>d\<in>set testStore.
     toISOString testRuntime (timestamp d) \<noteq> []
     \<and> dateParse testRuntime (toISOString testRuntime (timestamp d)) = Some (timestamp d)
     \<and> oidToString testRuntime (oid d) \<noteq> []
     \<and> newObjectId testRuntime (oidToString testRuntime (oid d)) = Some (oid d)"
  by (simp add: test_defs)

lemma testRequest_valid:
  "schemaValid testRequest" "validate testRuntime testRequest = None"
  "\<not> truthy (q_cursorTs testRequest)" "\<not> truthy (q_cursorId testRequest)"
  by (simp_all add: route_defs test_defs)

lemma testStore_distinct: "distinct (map oid testStore)"
  by (simp add: test_defs)

subsection \<open>Paging\<close>

text \<open>
  C1: over a fixed collection, a client that starts without a cursor and follows
  \<open>nextCursor\<close> until it is null gets there (within one request more than the collection
  has documents), and the pages laid end to end are the answer to the same query without
  a limit: the matching documents, each once, by timestamp descending and then by
  \<open>_id\<close> descending. The identities of the collection are distinct, and the runtime reads
  back the cursor strings it writes for the documents of the collection.
\<close>

theorem pages_are_the_unlimited_query:
  assumes "schemaValid req"
    and "validate rt req = None"
    and "\<not> truthy (q_cursorTs req)" "\<not> truthy (q_cursorId req)"
    and "distinct (map oid store)"
    and "\<forall>d\<in>set store.
           toISOString rt (timestamp d) \<noteq> []
           \<and> dateParse rt (toISOString rt (timestamp d)) = Some (timestamp d)
           \<and> oidToString rt (oid d) \<noteq> []
           \<and> newObjectId rt (oidToString rt (oid d)) = Some (oid d)"
  shows "\<exists>pages L.
           paginate (Suc (length store)) rt (mongoFind store) req = Some (Inr pages)
           \<and> Some (concat pages) = mongoFind store ((planQuery rt req)\<lparr>c_limit := 0\<rparr>)
           \<and> concat pages
               = map (\<lambda>d. project (projection (q_includeDetections req)) (docOf d)) L
           \<and> set L = {d \<in> set store. matches (baseFilter rt req) (docOf d)}
           \<and> distinct (map oid L)
           \<and> sorted_wrt (\<lambda>x y. timestamp y < timestamp x
                               \<or> (timestamp y = timestamp x \<and> oid y < oid x)) L
           \<and> (\<forall>p\<in>set pages. length p \<le> nat (q_limit req))"
proof -
  define L where
    "L = rev (sort_key sortKey (filter (\<lambda>d. matches (baseFilter rt req) (docOf d)) store))"
  have len: "length L - 0 < Suc (length store)"
    by (simp add: L_def less_Suc_eq_le)
  from paginate_from_offset [OF assms L_def _ len, of ] obtain pages where
    pg: "paginate (Suc (length store)) rt (mongoFind store) req = Some (Inr pages)"
      "concat pages = map (\<lambda>d. project (projection (q_includeDetections req)) (docOf d)) L"
      "\<forall>p\<in>set pages. length p \<le> nat (q_limit req)"
    by auto
  have un: "mongoFind store ((planQuery rt req)\<lparr>c_limit := 0\<rparr>)
              = Some (map (\<lambda>d. project (projection (q_includeDetections req)) (docOf d)) L)"
    using assms(3,4)
    by (simp add: mongoFind_def planQuery_def limitDocs_def sortDocs_def L_def
        cursorOf_no_cursor)
  have st: "set L = {d \<in> set store. matches (baseFilter rt req) (docOf d)}"
    by (auto simp: L_def)
  have "distinct (map oid (filter (\<lambda>d. matches (baseFilter rt req) (docOf d)) store))"
    using assms(5) by (rule distinct_map_filter)
  then have "distinct (map oid (sort_key sortKey
                (filter (\<lambda>d. matches (baseFilter rt req) (docOf d)) store)))"
    by (simp add: distinct_map)
  then have dl: "distinct (map oid L)"
    by (simp add: L_def rev_map [symmetric])
  have "sorted_wrt (\<lambda>x y. sortKey y < sortKey x) L"
    unfolding L_def using assms(5) by (rule sorted_descending)
  moreover have "(\<lambda>x y. sortKey y < sortKey x)
      = (\<lambda>x y. timestamp y < timestamp x \<or> (timestamp y = timestamp x \<and> oid y < oid x))"
    by (auto simp: sortKey_def less_prod_def fun_eq_iff)
  ultimately have so: "sorted_wrt (\<lambda>x y. timestamp y < timestamp x
                               \<or> (timestamp y = timestamp x \<and> oid y < oid x)) L"
    by simp
  show ?thesis
    using pg un st dl so by auto
qed

theorem pages_are_the_unlimited_query_witness:
  "\<exists>pages.
     paginate (Suc (length testStore)) testRuntime (mongoFind testStore) testRequest
       = Some (Inr pages)
     \<and> Some (concat pages)
         = mongoFind testStore ((planQuery testRuntime testRequest)\<lparr>c_limit := 0\<rparr>)"
  using pages_are_the_unlimited_query [OF testRequest_valid testStore_distinct
      testRuntime_round_trip]
  by blast

lemma test_pages:
  "paginate (Suc (length testStore)) testRuntime (mongoFind testStore) testRequest =
     Some (Inr [[[(''_id'', BObjectId 2), (''timestamp'', BDate 1767312000000),
                  (''siteId'', BString ''site-1''), (''equipmentId'', BString ''equip-1''),
                  (''confidence'', BDouble (Finite (9 / 10)))],
                 [(''_id'', BObjectId 4), (''timestamp'', BDate 1767225600000),
                  (''siteId'', BString ''site-1''), (''equipmentId'', BString ''equip-1''),
                  (''confidence'', BDouble (Finite (9 / 10)))]],
                [[(''_id'', BObjectId 3), (''timestamp'', BDate 1767225600000),
                  (''siteId'', BString ''site-1''), (''equipmentId'', BString ''equip-1''),
                  (''confidence'', BDouble (Finite (9 / 10)))],
                 [(''_id'', BObjectId 1), (''timestamp'', BDate 1767225600000),
                  (''siteId'', BString ''site-1''), (''equipmentId'', BString ''equip-1''),
                  (''confidence'', BDouble (Finite (9 / 10)))]]])"
  by (simp add: route_defs store_defs test_defs Let_def)

subsection \<open>The planned query and its page\<close>

lemma mongoFind_selects:
  assumes "mongoFind store c = Some docs"
  shows "\<forall>it\<in>set docs. \<exists>d\<in>set store.
           it = project (c_projection c) (docOf d) \<and> matches (c_filter c) (docOf d)"
proof -
  have a: "set (limitDocs n xs) \<subseteq> set xs" for n and xs :: "stored list"
    by (auto simp: limitDocs_def dest: in_set_takeD)
  have b: "set (sortDocs spec xs) = set xs" for spec xs
    by (simp add: sortDocs_def)
  have "docs = map (\<lambda>d. project (c_projection c) (docOf d))
            (limitDocs (c_limit c) (sortDocs (c_sort c)
               (filter (\<lambda>d. matches (c_filter c) (docOf d)) store)))"
    using assms by (simp add: mongoFind_def)
  then show ?thesis using a b by fastforce
qed

lemma respond_items_subset:
  "respond rt req docs = Reply code (Page p) \<Longrightarrow> set (items p) \<subseteq> set docs"
  by (auto simp: respond_def Let_def slice0_def dest: in_set_takeD
      split: if_splits option.splits bson.splits)

lemma handler_calls:
  "validate rt req = None \<Longrightarrow> snd (handler rt find1 req) = [planQuery rt req]"
  by (simp add: handler_valid split: option.splits)

lemma handler_page_items:
  assumes "fst (handler rt (mongoFind store) req) = Reply code (Page p)"
  shows "validate rt req = None
         \<and> (\<forall>it\<in>set (items p). \<exists>d\<in>set store.
               it = project (projection (q_includeDetections req)) (docOf d)
               \<and> matches (c_filter (planQuery rt req)) (docOf d))"
proof -
  have va: "validate rt req = None"
    using assms by (cases "validate rt req") (simp_all add: handler_def)
  obtain docs where f: "mongoFind store (planQuery rt req) = Some docs"
    by (simp add: mongoFind_def)
  have r: "respond rt req docs = Reply code (Page p)"
    using assms by (simp add: handler_valid [OF va] f)
  have "c_projection (planQuery rt req) = projection (q_includeDetections req)"
    by (simp add: planQuery_def)
  then show ?thesis
    using va mongoFind_selects [OF f] respond_items_subset [OF r] by fastforce
qed

text \<open>
  C2: a request with a cursor that parses, and that passes the other checks, sends the
  base filter with one more clause, the disjunction
  \<open>timestamp < ts\<close> or (\<open>timestamp = ts\<close> and \<open>_id < oid\<close>). A document satisfies the
  filter sent exactly when it satisfies the base filter and comes strictly after the
  cursor in the order of the sort, and every item of the page is such a document.
\<close>

theorem cursor_adds_the_tie_break_clause:
  assumes "validate rt req = None"
    and "q_cursorTs req = Some cts" "cts \<noteq> []" "dateParse rt cts = Some ts"
    and "q_cursorId req = Some cid" "cid \<noteq> []" "newObjectId rt cid = Some i"
  shows "snd (handler rt find1 req) = [planQuery rt req]
     \<and> c_filter (planQuery rt req)
         = baseFilter rt req
           @ [Or [[Field ''timestamp'' (Ops [(''$lt'', BDate ts)])],
                  [Field ''timestamp'' (Eq (BDate ts)),
                   Field ''_id'' (Ops [(''$lt'', BObjectId i)])]]]
     \<and> (matches (c_filter (planQuery rt req)) (docOf d)
          \<longleftrightarrow> matches (baseFilter rt req) (docOf d)
              \<and> (timestamp d < ts \<or> (timestamp d = ts \<and> oid d < i)))
     \<and> (fst (handler rt (mongoFind store) req) = Reply code (Page p)
          \<longrightarrow> (\<forall>it\<in>set (items p). \<exists>d\<in>set store.
                 it = project (projection (q_includeDetections req)) (docOf d)
                 \<and> matches (baseFilter rt req) (docOf d)
                 \<and> (timestamp d < ts \<or> (timestamp d = ts \<and> oid d < i))))"
proof -
  have c: "cursorOf rt req = Some (ts, i)"
    using assms by (simp add: cursorOf_def truthy_def newDate_def ToString_def)
  have 1: "snd (handler rt find1 req) = [planQuery rt req]"
    using assms(1) by (rule handler_calls)
  have 2: "c_filter (planQuery rt req)
         = baseFilter rt req
           @ [Or [[Field ''timestamp'' (Ops [(''$lt'', BDate ts)])],
                  [Field ''timestamp'' (Eq (BDate ts)),
                   Field ''_id'' (Ops [(''$lt'', BObjectId i)])]]]"
    by (simp add: planQuery_def c cursorFilter_def)
  have 3: "matches (c_filter (planQuery rt req)) (docOf d)
          \<longleftrightarrow> matches (baseFilter rt req) (docOf d)
              \<and> (timestamp d < ts \<or> (timestamp d = ts \<and> oid d < i))" for d
    by (rule planned_filter_cursor [OF c])
  have 4: "fst (handler rt (mongoFind store) req) = Reply code (Page p)
          \<longrightarrow> (\<forall>it\<in>set (items p). \<exists>d\<in>set store.
                 it = project (projection (q_includeDetections req)) (docOf d)
                 \<and> matches (baseFilter rt req) (docOf d)
                 \<and> (timestamp d < ts \<or> (timestamp d = ts \<and> oid d < i)))"
    using handler_page_items [of rt store req code p] 3 by blast
  show ?thesis using 1 2 3 4 by blast
qed

theorem cursor_adds_the_tie_break_clause_witness:
  "c_filter (planQuery testRuntime
       (testRequest\<lparr>q_cursorTs := Some ''2026-01-01T00:00:00.000Z'',
                    q_cursorId := Some ''000000000000000000000004''\<rparr>))
     = baseFilter testRuntime
         (testRequest\<lparr>q_cursorTs := Some ''2026-01-01T00:00:00.000Z'',
                      q_cursorId := Some ''000000000000000000000004''\<rparr>)
       @ [Or [[Field ''timestamp'' (Ops [(''$lt'', BDate 1767225600000)])],
              [Field ''timestamp'' (Eq (BDate 1767225600000)),
               Field ''_id'' (Ops [(''$lt'', BObjectId 4)])]]]
   \<and> matches (c_filter (planQuery testRuntime
         (testRequest\<lparr>q_cursorTs := Some ''2026-01-01T00:00:00.000Z'',
                      q_cursorId := Some ''000000000000000000000004''\<rparr>)))
       (docOf (storedAt 1767225600000 3))
   \<and> \<not> matches (c_filter (planQuery testRuntime
         (testRequest\<lparr>q_cursorTs := Some ''2026-01-01T00:00:00.000Z'',
                      q_cursorId := Some ''000000000000000000000004''\<rparr>)))
       (docOf (storedAt 1767225600000 4))"
proof -
  let ?R = "testRequest\<lparr>q_cursorTs := Some ''2026-01-01T00:00:00.000Z'',
                      q_cursorId := Some ''000000000000000000000004''\<rparr>"
  have v: "validate testRuntime ?R = None"
    by (simp add: route_defs test_defs)
  have h: "q_cursorTs ?R = Some ''2026-01-01T00:00:00.000Z''"
    "''2026-01-01T00:00:00.000Z'' \<noteq> []"
    "dateParse testRuntime ''2026-01-01T00:00:00.000Z'' = Some 1767225600000"
    "q_cursorId ?R = Some ''000000000000000000000004''"
    "''000000000000000000000004'' \<noteq> []"
    "newObjectId testRuntime ''000000000000000000000004'' = Some 4"
    by (simp_all add: test_defs)
  have b3: "matches (baseFilter testRuntime ?R) (docOf (storedAt 1767225600000 3))"
    by (simp add: route_defs store_defs test_defs)
  have b4: "timestamp (storedAt 1767225600000 3) = 1767225600000"
    "oid (storedAt 1767225600000 3) = 3" "timestamp (storedAt 1767225600000 4) = 1767225600000"
    "oid (storedAt 1767225600000 4) = 4"
    by (simp_all add: storedAt_def)
  note t3 = cursor_adds_the_tie_break_clause [OF v h(1) h(2) h(3) h(4) h(5) h(6),
        of "mongoFind testStore" "storedAt 1767225600000 3"]
  note t4 = cursor_adds_the_tie_break_clause [OF v h(1) h(2) h(3) h(4) h(5) h(6),
        of "mongoFind testStore" "storedAt 1767225600000 4"]
  have 1: "c_filter (planQuery testRuntime ?R)
     = baseFilter testRuntime ?R
       @ [Or [[Field ''timestamp'' (Ops [(''$lt'', BDate 1767225600000)])],
              [Field ''timestamp'' (Eq (BDate 1767225600000)),
               Field ''_id'' (Ops [(''$lt'', BObjectId 4)])]]]"
    using t3 by (rule conjunct2 [THEN conjunct1])
  have "matches (c_filter (planQuery testRuntime ?R)) (docOf (storedAt 1767225600000 3))
          \<longleftrightarrow> matches (baseFilter testRuntime ?R) (docOf (storedAt 1767225600000 3))
              \<and> (timestamp (storedAt 1767225600000 3) < 1767225600000
                  \<or> (timestamp (storedAt 1767225600000 3) = 1767225600000
                      \<and> oid (storedAt 1767225600000 3) < 4))"
    using t3 by (rule conjunct2 [THEN conjunct2, THEN conjunct1])
  then have 2: "matches (c_filter (planQuery testRuntime ?R)) (docOf (storedAt 1767225600000 3))"
    using b3 by (simp only: b4) simp
  have "matches (c_filter (planQuery testRuntime ?R)) (docOf (storedAt 1767225600000 4))
          \<longleftrightarrow> matches (baseFilter testRuntime ?R) (docOf (storedAt 1767225600000 4))
              \<and> (timestamp (storedAt 1767225600000 4) < 1767225600000
                  \<or> (timestamp (storedAt 1767225600000 4) = 1767225600000
                      \<and> oid (storedAt 1767225600000 4) < 4))"
    using t4 by (rule conjunct2 [THEN conjunct2, THEN conjunct1])
  then have 3: "\<not> matches (c_filter (planQuery testRuntime ?R)) (docOf (storedAt 1767225600000 4))"
    by (simp only: b4) simp
  show ?thesis using 1 2 3 by (intro conjI)
qed


text \<open>
  C3: a request that passes the checks makes one call to the collection, sorted by
  timestamp and \<open>_id\<close>, both descending, and limited to \<open>limit + 1\<close>. If more than \<open>limit\<close>
  documents come back, the page holds the first \<open>limit\<close> of them, without the last one
  fetched, and \<open>nextCursor\<close> is the timestamp and the \<open>_id\<close> of the last item of the page;
  otherwise the page holds all of them and \<open>nextCursor\<close> is null.
\<close>

theorem one_query_with_a_lookahead_row:
  assumes "schemaValid req" and "validate rt req = None"
  shows "\<exists>docs.
     snd (getEmissions rt (mongoFind store) req) = [planQuery rt req]
     \<and> c_limit (planQuery rt req) = q_limit req + 1
     \<and> c_sort (planQuery rt req) = [(''timestamp'', -1), (''_id'', -1)]
     \<and> mongoFind store (planQuery rt req) = Some docs
     \<and> int (length docs) \<le> q_limit req + 1
     \<and> (q_limit req < int (length docs) \<longrightarrow>
          (\<exists>t i. map_of (docs ! (nat (q_limit req) - 1)) ''timestamp'' = Some (BDate t)
             \<and> map_of (docs ! (nat (q_limit req) - 1)) ''_id'' = Some (BObjectId i)
             \<and> fst (getEmissions rt (mongoFind store) req) =
                 Reply 200 (Page \<lparr> count = nat (q_limit req), p_siteId = q_siteId req,
                   p_equipmentId = q_equipmentId req,
                   nextCursor = Some (toISOString rt t, oidToString rt i),
                   items = take (nat (q_limit req)) docs \<rparr>)))
     \<and> (\<not> q_limit req < int (length docs) \<longrightarrow>
          fst (getEmissions rt (mongoFind store) req) =
            Reply 200 (Page \<lparr> count = length docs, p_siteId = q_siteId req,
              p_equipmentId = q_equipmentId req, nextCursor = None, items = docs \<rparr>))"
proof -
  let ?m = "nat (q_limit req)"
  let ?pr = "\<lambda>d. project (projection (q_includeDetections req)) (docOf d)"
  define ds where "ds = take (Suc ?m) (rev (sort_key sortKey
      (filter (\<lambda>d. matches (c_filter (planQuery rt req)) (docOf d)) store)))"
  have lim: "1 \<le> q_limit req" using assms(1) by (simp add: schemaValid_def)
  have f: "mongoFind store (planQuery rt req) = Some (map ?pr ds)"
    using mongoFind_planned [OF lim] by (simp add: ds_def)
  have g: "getEmissions rt (mongoFind store) req
             = (respond rt req (map ?pr ds), [planQuery rt req])"
    using assms by (simp add: getEmissions_def handler_valid f)
  have le: "int (length (map ?pr ds)) \<le> q_limit req + 1"
    using lim by (simp add: ds_def)
  have rp: "respond rt req (map ?pr ds) =
     Reply 200 (Page \<lparr> count = min ?m (length ds),
       p_siteId = q_siteId req, p_equipmentId = q_equipmentId req,
       nextCursor =
         (if ?m < length ds
          then Some (toISOString rt (timestamp (ds ! (?m - 1))),
                     oidToString rt (oid (ds ! (?m - 1))))
          else None),
       items = map ?pr (take ?m ds) \<rparr>)"
    by (rule respond_page [OF lim])
  have more: "q_limit req < int (length (map ?pr ds)) \<longrightarrow>
          (\<exists>t i. map_of (map ?pr ds ! (?m - 1)) ''timestamp'' = Some (BDate t)
             \<and> map_of (map ?pr ds ! (?m - 1)) ''_id'' = Some (BObjectId i)
             \<and> fst (getEmissions rt (mongoFind store) req) =
                 Reply 200 (Page \<lparr> count = ?m, p_siteId = q_siteId req,
                   p_equipmentId = q_equipmentId req,
                   nextCursor = Some (toISOString rt t, oidToString rt i),
                   items = take ?m (map ?pr ds) \<rparr>))"
  proof
    assume "q_limit req < int (length (map ?pr ds))"
    then have lt: "?m < length ds" using lim by simp
    then have "?m - 1 < length ds" by simp
    then have n: "map ?pr ds ! (?m - 1) = ?pr (ds ! (?m - 1))" by simp
    have "fst (getEmissions rt (mongoFind store) req) =
                 Reply 200 (Page \<lparr> count = ?m, p_siteId = q_siteId req,
                   p_equipmentId = q_equipmentId req,
                   nextCursor = Some (toISOString rt (timestamp (ds ! (?m - 1))),
                                      oidToString rt (oid (ds ! (?m - 1)))),
                   items = take ?m (map ?pr ds) \<rparr>)"
      using lt by (simp add: g rp take_map min_def)
    then show "\<exists>t i. map_of (map ?pr ds ! (?m - 1)) ''timestamp'' = Some (BDate t)
             \<and> map_of (map ?pr ds ! (?m - 1)) ''_id'' = Some (BObjectId i)
             \<and> fst (getEmissions rt (mongoFind store) req) =
                 Reply 200 (Page \<lparr> count = ?m, p_siteId = q_siteId req,
                   p_equipmentId = q_equipmentId req,
                   nextCursor = Some (toISOString rt t, oidToString rt i),
                   items = take ?m (map ?pr ds) \<rparr>)"
      unfolding n project_lookup by blast
  qed
  have nomore: "\<not> q_limit req < int (length (map ?pr ds)) \<longrightarrow>
          fst (getEmissions rt (mongoFind store) req) =
            Reply 200 (Page \<lparr> count = length (map ?pr ds), p_siteId = q_siteId req,
              p_equipmentId = q_equipmentId req, nextCursor = None, items = map ?pr ds \<rparr>)"
  proof
    assume "\<not> q_limit req < int (length (map ?pr ds))"
    then have "\<not> ?m < length ds" using lim by simp
    then show "fst (getEmissions rt (mongoFind store) req) =
            Reply 200 (Page \<lparr> count = length (map ?pr ds), p_siteId = q_siteId req,
              p_equipmentId = q_equipmentId req, nextCursor = None, items = map ?pr ds \<rparr>)"
      by (simp add: g rp min_def)
  qed
  have c: "snd (getEmissions rt (mongoFind store) req) = [planQuery rt req]"
    "c_limit (planQuery rt req) = q_limit req + 1"
    "c_sort (planQuery rt req) = [(''timestamp'', -1), (''_id'', -1)]"
    by (simp_all add: g planQuery_def)
  show ?thesis
    using c f le more nomore by blast
qed

theorem one_query_with_a_lookahead_row_witness:
  "\<exists>docs.
     snd (getEmissions testRuntime (mongoFind testStore) testRequest)
       = [planQuery testRuntime testRequest]
     \<and> c_limit (planQuery testRuntime testRequest) = q_limit testRequest + 1
     \<and> mongoFind testStore (planQuery testRuntime testRequest) = Some docs
     \<and> int (length docs) \<le> q_limit testRequest + 1"
  using one_query_with_a_lookahead_row [OF testRequest_valid(1) testRequest_valid(2), of testStore]
  by blast


lemma test_first_page:
  "fst (getEmissions testRuntime (mongoFind testStore) testRequest) =
     Reply 200 (Page \<lparr> count = 2, p_siteId = ''site-1'', p_equipmentId = ''equip-1'',
       nextCursor = Some (''2026-01-01T00:00:00.000Z'', ''000000000000000000000004''),
       items =
         [[(''_id'', BObjectId 2), (''timestamp'', BDate 1767312000000),
           (''siteId'', BString ''site-1''), (''equipmentId'', BString ''equip-1''),
           (''confidence'', BDouble (Finite (9 / 10)))],
          [(''_id'', BObjectId 4), (''timestamp'', BDate 1767225600000),
           (''siteId'', BString ''site-1''), (''equipmentId'', BString ''equip-1''),
           (''confidence'', BDouble (Finite (9 / 10)))]] \<rparr>)"
  by (simp add: route_defs store_defs test_defs Let_def)

text \<open>
  C6 (as stated, refuted): the items of the first page of the test collection. Each has
  an \<open>_id\<close>, a timestamp, a siteId, an equipmentId and a confidence and nothing else: no
  mass, for one.
\<close>

theorem item_has_no_mass:
  "fst (getEmissions testRuntime (mongoFind testStore) testRequest) =
     Reply 200 (Page \<lparr> count = 2, p_siteId = ''site-1'', p_equipmentId = ''equip-1'',
       nextCursor = Some (''2026-01-01T00:00:00.000Z'', ''000000000000000000000004''),
       items =
         [[(''_id'', BObjectId 2), (''timestamp'', BDate 1767312000000),
           (''siteId'', BString ''site-1''), (''equipmentId'', BString ''equip-1''),
           (''confidence'', BDouble (Finite (9 / 10)))],
          [(''_id'', BObjectId 4), (''timestamp'', BDate 1767225600000),
           (''siteId'', BString ''site-1''), (''equipmentId'', BString ''equip-1''),
           (''confidence'', BDouble (Finite (9 / 10)))]] \<rparr>)
   \<and> map_of [(''_id'', BObjectId 2), (''timestamp'', BDate 1767312000000),
             (''siteId'', BString ''site-1''), (''equipmentId'', BString ''equip-1''),
             (''confidence'', BDouble (Finite (9 / 10)))] ''mass'' = None"
  using test_first_page by simp

text \<open>
  C6 (amended): every item of a page is a stored document cut down to the fields of the
  projection: \<open>_id\<close>, timestamp, siteId, equipmentId and confidence, and detections
  exactly when \<open>includeDetections\<close> is true. The other attributes of the data model (id,
  siteName, type, mass, unit, scanDuration, numDetections) are not in the output.
\<close>

theorem items_carry_the_projected_fields:
  assumes "fst (getEmissions rt (mongoFind store) req) = Reply code (Page p)"
    and "it \<in> set (items p)"
  shows "(\<exists>d\<in>set store.
            it = [(''_id'', BObjectId (oid d)), (''timestamp'', BDate (timestamp d)),
                  (''siteId'', bsonOf (siteId d)), (''equipmentId'', bsonOf (equipmentId d)),
                  (''confidence'', BDouble (confidence d))]
                 @ (if q_includeDetections req
                    then [(''detections'', BJson (detections d))] else []))
         \<and> (map_of it ''detections'' \<noteq> None \<longleftrightarrow> q_includeDetections req)
         \<and> map_of it ''id'' = None \<and> map_of it ''siteName'' = None
         \<and> map_of it ''type'' = None \<and> map_of it ''mass'' = None
         \<and> map_of it ''unit'' = None \<and> map_of it ''scanDuration'' = None
         \<and> map_of it ''numDetections'' = None"
proof -
  have h: "fst (handler rt (mongoFind store) req) = Reply code (Page p)"
    using assms(1) by (simp add: getEmissions_def split: if_splits)
  from handler_page_items [OF h] assms(2) obtain d where
    d: "d \<in> set store" "it = project (projection (q_includeDetections req)) (docOf d)"
    by blast
  have e: "it = [(''_id'', BObjectId (oid d)), (''timestamp'', BDate (timestamp d)),
                  (''siteId'', bsonOf (siteId d)), (''equipmentId'', bsonOf (equipmentId d)),
                  (''confidence'', BDouble (confidence d))]
                 @ (if q_includeDetections req
                    then [(''detections'', BJson (detections d))] else [])"
    by (simp add: d(2) project_def projection_def docOf_def)
  show ?thesis
    using d(1) e by (cases "q_includeDetections req") auto
qed

theorem items_carry_the_projected_fields_witness:
  "\<exists>d\<in>set testStore.
     [(''_id'', BObjectId 2), (''timestamp'', BDate 1767312000000),
      (''siteId'', BString ''site-1''), (''equipmentId'', BString ''equip-1''),
      (''confidence'', BDouble (Finite (9 / 10)))]
     = [(''_id'', BObjectId (oid d)), (''timestamp'', BDate (timestamp d)),
        (''siteId'', bsonOf (siteId d)), (''equipmentId'', bsonOf (equipmentId d)),
        (''confidence'', BDouble (confidence d))]
       @ (if q_includeDetections testRequest
          then [(''detections'', BJson (detections d))] else [])"
proof -
  let ?it = "[(''_id'', BObjectId 2), (''timestamp'', BDate 1767312000000),
      (''siteId'', BString ''site-1''), (''equipmentId'', BString ''equip-1''),
      (''confidence'', BDouble (Finite (9 / 10)))]"
  let ?p = "\<lparr> count = 2, p_siteId = ''site-1'', p_equipmentId = ''equip-1'',
       nextCursor = Some (''2026-01-01T00:00:00.000Z'', ''000000000000000000000004''),
       items =
         [?it,
          [(''_id'', BObjectId 4), (''timestamp'', BDate 1767225600000),
           (''siteId'', BString ''site-1''), (''equipmentId'', BString ''equip-1''),
           (''confidence'', BDouble (Finite (9 / 10)))]] \<rparr>"
  have a: "fst (getEmissions testRuntime (mongoFind testStore) testRequest) = Reply 200 (Page ?p)"
    by (rule test_first_page)
  have b: "?it \<in> set (items ?p)" by simp
  show ?thesis
    using items_carry_the_projected_fields [OF a b] by (rule conjunct1)
qed


text \<open>
  C7 (as stated, refuted): a \<open>from\<close> that is the empty string does not parse as a date,
  yet the request is not refused. The handler reads an empty parameter as one that was
  not sent: the query goes to the collection, without a time filter, and a page comes
  back.
\<close>

theorem empty_from_is_not_refused:
  "newDate testRuntime (q_from (testRequest\<lparr>q_from := Some []\<rparr>)) = None
   \<and> getEmissions testRuntime (mongoFind testStore) (testRequest\<lparr>q_from := Some []\<rparr>) =
     (Reply 200 (Page \<lparr> count = 2, p_siteId = ''site-1'', p_equipmentId = ''equip-1'',
        nextCursor = Some (''2026-01-01T00:00:00.000Z'', ''000000000000000000000004''),
        items =
          [[(''_id'', BObjectId 2), (''timestamp'', BDate 1767312000000),
            (''siteId'', BString ''site-1''), (''equipmentId'', BString ''equip-1''),
            (''confidence'', BDouble (Finite (9 / 10)))],
           [(''_id'', BObjectId 4), (''timestamp'', BDate 1767225600000),
            (''siteId'', BString ''site-1''), (''equipmentId'', BString ''equip-1''),
            (''confidence'', BDouble (Finite (9 / 10)))]] \<rparr>),
      [\<lparr> c_filter = [Field ''siteId'' (Eq (BString ''site-1'')),
                     Field ''equipmentId'' (Eq (BString ''equip-1'')),
                     Field ''confidence'' (Ops [(''$gte'', BDouble (Finite (3 / 4)))])],
          c_projection = [''_id'', ''siteId'', ''equipmentId'', ''timestamp'', ''confidence''],
          c_sort = [(''timestamp'', -1), (''_id'', -1)], c_limit = 3 \<rparr>])"
  by (simp add: route_defs store_defs test_defs Let_def)

text \<open>
  C7 (amended): a request is refused with status 400 and a message that names the
  problem, and the collection is not called, when a parameter that is not empty fails:
  \<open>from\<close> or \<open>to\<close> does not parse, \<open>from\<close> is later than \<open>to\<close>, one of
  \<open>cursorTs\<close> and \<open>cursorId\<close> is there without the other, \<open>cursorTs\<close> does not parse,
  or \<open>cursorId\<close> is no ObjectId. These are all the requests that the handler refuses. The
  message is that of the first problem in this order.
\<close>

theorem invalid_request_never_reaches_the_store:
  "((truthy (q_from req) \<and> newDate rt (q_from req) = None)
     \<or> (truthy (q_to req) \<and> newDate rt (q_to req) = None)
     \<or> (\<exists>a b. truthy (q_from req) \<and> truthy (q_to req)
            \<and> newDate rt (q_from req) = Some a \<and> newDate rt (q_to req) = Some b \<and> b < a)
     \<or> (truthy (q_cursorTs req) \<noteq> truthy (q_cursorId req))
     \<or> (truthy (q_cursorTs req) \<and> truthy (q_cursorId req)
          \<and> newDate rt (q_cursorTs req) = None)
     \<or> (truthy (q_cursorTs req) \<and> truthy (q_cursorId req)
          \<and> newObjectId rt (ToString (q_cursorId req)) = None)
    \<longleftrightarrow> (\<exists>msg. validate rt req = Some msg))
   \<and> (validate rt req = Some msg
        \<longrightarrow> handler rt find1 req = (Reply 400 (Message msg), [])
            \<and> (\<exists>b. getEmissions rt find1 req = (Reply 400 b, []))
            \<and> msg \<in> {''Invalid 'from' timestamp'', ''Invalid 'to' timestamp'',
                       CHR 0x27 # ''from' must be <= 'to'' @ [CHR 0x27],
                       ''Both cursorTs and cursorId are required together'',
                       ''Invalid 'cursorTs' timestamp'', ''Invalid 'cursorId' ObjectId''})
   \<and> (truthy (q_from req) \<and> newDate rt (q_from req) = None
        \<longrightarrow> validate rt req = Some ''Invalid 'from' timestamp'')
   \<and> (\<not> (truthy (q_from req) \<and> newDate rt (q_from req) = None)
        \<and> truthy (q_to req) \<and> newDate rt (q_to req) = None
        \<longrightarrow> validate rt req = Some ''Invalid 'to' timestamp'')
   \<and> (truthy (q_from req) \<and> truthy (q_to req)
        \<and> newDate rt (q_from req) = Some a \<and> newDate rt (q_to req) = Some b \<and> b < a
        \<longrightarrow> validate rt req = Some (CHR 0x27 # ''from' must be <= 'to'' @ [CHR 0x27]))
   \<and> (validate rt (req\<lparr>q_cursorTs := None, q_cursorId := None\<rparr>) = None
        \<longrightarrow> (truthy (q_cursorTs req) \<noteq> truthy (q_cursorId req)
              \<longrightarrow> validate rt req = Some ''Both cursorTs and cursorId are required together'')
            \<and> (truthy (q_cursorTs req) \<and> truthy (q_cursorId req)
                 \<and> newDate rt (q_cursorTs req) = None
              \<longrightarrow> validate rt req = Some ''Invalid 'cursorTs' timestamp'')
            \<and> (truthy (q_cursorTs req) \<and> truthy (q_cursorId req)
                 \<and> newDate rt (q_cursorTs req) \<noteq> None
                 \<and> newObjectId rt (ToString (q_cursorId req)) = None
              \<longrightarrow> validate rt req = Some ''Invalid 'cursorId' ObjectId''))"
proof (intro conjI)
  show "((truthy (q_from req) \<and> newDate rt (q_from req) = None)
     \<or> (truthy (q_to req) \<and> newDate rt (q_to req) = None)
     \<or> (\<exists>a b. truthy (q_from req) \<and> truthy (q_to req)
            \<and> newDate rt (q_from req) = Some a \<and> newDate rt (q_to req) = Some b \<and> b < a)
     \<or> (truthy (q_cursorTs req) \<noteq> truthy (q_cursorId req))
     \<or> (truthy (q_cursorTs req) \<and> truthy (q_cursorId req)
          \<and> newDate rt (q_cursorTs req) = None)
     \<or> (truthy (q_cursorTs req) \<and> truthy (q_cursorId req)
          \<and> newObjectId rt (ToString (q_cursorId req)) = None))
    \<longleftrightarrow> (\<exists>msg. validate rt req = Some msg)"
    by (cases "newDate rt (q_from req)"; cases "newDate rt (q_to req)")
      (auto simp: validate_def timeFilter_def)
next
  show "validate rt req = Some msg
        \<longrightarrow> handler rt find1 req = (Reply 400 (Message msg), [])
            \<and> (\<exists>b. getEmissions rt find1 req = (Reply 400 b, []))
            \<and> msg \<in> {''Invalid 'from' timestamp'', ''Invalid 'to' timestamp'',
                       CHR 0x27 # ''from' must be <= 'to'' @ [CHR 0x27],
                       ''Both cursorTs and cursorId are required together'',
                       ''Invalid 'cursorTs' timestamp'', ''Invalid 'cursorId' ObjectId''}"
  proof
    assume v: "validate rt req = Some msg"
    have 1: "handler rt find1 req = (Reply 400 (Message msg), [])"
      using v by (rule handler_invalid)
    then have 2: "\<exists>b. getEmissions rt find1 req = (Reply 400 b, [])"
      by (simp add: getEmissions_def)
    have 3: "msg \<in> {''Invalid 'from' timestamp'', ''Invalid 'to' timestamp'',
                       CHR 0x27 # ''from' must be <= 'to'' @ [CHR 0x27],
                       ''Both cursorTs and cursorId are required together'',
                       ''Invalid 'cursorTs' timestamp'', ''Invalid 'cursorId' ObjectId''}"
      using v unfolding validate_def by (simp split: if_splits)
    show "handler rt find1 req = (Reply 400 (Message msg), [])
            \<and> (\<exists>b. getEmissions rt find1 req = (Reply 400 b, []))
            \<and> msg \<in> {''Invalid 'from' timestamp'', ''Invalid 'to' timestamp'',
                       CHR 0x27 # ''from' must be <= 'to'' @ [CHR 0x27],
                       ''Both cursorTs and cursorId are required together'',
                       ''Invalid 'cursorTs' timestamp'', ''Invalid 'cursorId' ObjectId''}"
      using 1 2 3 by (intro conjI)
  qed
next
  show "truthy (q_from req) \<and> newDate rt (q_from req) = None
        \<longrightarrow> validate rt req = Some ''Invalid 'from' timestamp''"
    by (simp add: validate_def)
next
  show "\<not> (truthy (q_from req) \<and> newDate rt (q_from req) = None)
        \<and> truthy (q_to req) \<and> newDate rt (q_to req) = None
        \<longrightarrow> validate rt req = Some ''Invalid 'to' timestamp''"
    by (simp add: validate_def)
next
  show "truthy (q_from req) \<and> truthy (q_to req)
        \<and> newDate rt (q_from req) = Some a \<and> newDate rt (q_to req) = Some b \<and> b < a
        \<longrightarrow> validate rt req = Some (CHR 0x27 # ''from' must be <= 'to'' @ [CHR 0x27])"
    by (simp add: validate_def timeFilter_def)
next
  show "validate rt (req\<lparr>q_cursorTs := None, q_cursorId := None\<rparr>) = None
        \<longrightarrow> (truthy (q_cursorTs req) \<noteq> truthy (q_cursorId req)
              \<longrightarrow> validate rt req = Some ''Both cursorTs and cursorId are required together'')
            \<and> (truthy (q_cursorTs req) \<and> truthy (q_cursorId req)
                 \<and> newDate rt (q_cursorTs req) = None
              \<longrightarrow> validate rt req = Some ''Invalid 'cursorTs' timestamp'')
            \<and> (truthy (q_cursorTs req) \<and> truthy (q_cursorId req)
                 \<and> newDate rt (q_cursorTs req) \<noteq> None
                 \<and> newObjectId rt (ToString (q_cursorId req)) = None
              \<longrightarrow> validate rt req = Some ''Invalid 'cursorId' ObjectId'')"
    by (auto simp: validate_def timeFilter_def truthy_def split: if_splits)
qed

theorem invalid_request_never_reaches_the_store_witness:
  "handler testRuntime (mongoFind testStore) (testRequest\<lparr>q_from := Some ''not-a-date''\<rparr>)
     = (Reply 400 (Message ''Invalid 'from' timestamp''), [])
   \<and> handler testRuntime (mongoFind testStore)
       (testRequest\<lparr>q_cursorTs := Some ''2026-01-01T00:00:00.000Z''\<rparr>)
     = (Reply 400 (Message ''Both cursorTs and cursorId are required together''), [])"
proof -
  let ?A = "testRequest\<lparr>q_from := Some ''not-a-date''\<rparr>"
  let ?B = "testRequest\<lparr>q_cursorTs := Some ''2026-01-01T00:00:00.000Z''\<rparr>"
  note ta = invalid_request_never_reaches_the_store
    [of ?A testRuntime "''Invalid 'from' timestamp''" "mongoFind testStore" 0 0]
  note tb = invalid_request_never_reaches_the_store
    [of ?B testRuntime "''Both cursorTs and cursorId are required together''"
        "mongoFind testStore" 0 0]
  have a: "truthy (q_from ?A) \<and> newDate testRuntime (q_from ?A) = None"
    by (simp add: truthy_def newDate_def test_defs)
  have b: "validate testRuntime (?B\<lparr>q_cursorTs := None, q_cursorId := None\<rparr>) = None"
    "truthy (q_cursorTs ?B) \<noteq> truthy (q_cursorId ?B)"
    by (simp_all add: route_defs test_defs)
  have va: "validate testRuntime ?A = Some ''Invalid 'from' timestamp''"
    using ta a by blast
  have vb: "validate testRuntime ?B = Some ''Both cursorTs and cursorId are required together''"
    using tb b by blast
  have 1: "handler testRuntime (mongoFind testStore) ?A
             = (Reply 400 (Message ''Invalid 'from' timestamp''), [])"
    using ta va by blast
  have 2: "handler testRuntime (mongoFind testStore) ?B
             = (Reply 400 (Message ''Both cursorTs and cursorId are required together''), [])"
    using tb vb by blast
  show ?thesis using 1 2 by (intro conjI)
qed

end
